theory Spec2Isabelle
  imports Complex_Main "HOL-Library.AList" "HOL-Library.Sublist"
begin

section \<open>Python 2 values\<close>

text \<open>
  \<^verbatim>\<open>port/tarball.py\<close> is Python 2 (\<^verbatim>\<open>mode=0644\<close>, \<^verbatim>\<open>cStringIO\<close>). There \<^verbatim>\<open>str\<close> is a
  byte string and \<^verbatim>\<open>unicode\<close> a text string, two different types; \<^verbatim>\<open>isinstance(data, str)\<close>
  holds of the first only. A byte is a \<^typ>\<open>char\<close>, a code point a \<^typ>\<open>nat\<close>.
\<close>

type_synonym bytes = string

datatype pystr = Str bytes | Unicode "nat list"

text \<open>
  The values \<^verbatim>\<open>write\<close> can be handed: a string of either kind, an integer, \<^verbatim>\<open>None\<close>,
  or a \<^verbatim>\<open>gtk.gdk.Pixbuf\<close>. The image library is not part of the repository, so a pixbuf
  is a value of a type parameter \<open>'p\<close>.
\<close>

datatype 'p pyobj = PyString pystr | PyInt int | PyNone | Pixbuf 'p

text \<open>
  Exceptions are values. \<open>ReadError\<close> is \<^verbatim>\<open>tarfile.ReadError\<close>, \<open>BadDataTypeError\<close> the
  module's own class (a \<^verbatim>\<open>TarballError\<close>); the others are raised by the interpreter or
  the standard library under the module's calls.
\<close>

datatype error =
    ReadError
  | BadDataTypeError
  | KeyError
  | IOError string
  | OSError string
  | ValueError
  | TypeError
  | UnicodeDecodeError
  | UnboundLocalError
  | IndexError
  | BadZipfile
  | GError

text \<open>
  \<^verbatim>\<open>arcname.encode('utf8')\<close>. On a \<^verbatim>\<open>unicode\<close> object this is the UTF-8 encoder. On a
  \<^verbatim>\<open>str\<close> Python 2 first decodes the bytes with the ASCII codec, which raises
  \<^verbatim>\<open>UnicodeDecodeError\<close> on a byte above 127, and then encodes the result, which gives
  the same bytes back.
\<close>

definition utf8_char :: "nat \<Rightarrow> bytes" where
  "utf8_char c =
     (if c < 128 then [char_of c]
      else if c < 2048 then [char_of (192 + c div 64), char_of (128 + c mod 64)]
      else if c < 65536 then
        [char_of (224 + c div 4096), char_of (128 + (c div 64) mod 64),
         char_of (128 + c mod 64)]
      else
        [char_of (240 + c div 262144), char_of (128 + (c div 4096) mod 64),
         char_of (128 + (c div 64) mod 64), char_of (128 + c mod 64)])"

definition is_ascii :: "bytes \<Rightarrow> bool" where
  "is_ascii b = list_all (\<lambda>c. (of_char c :: nat) < 128) b"

fun encode_utf8 :: "pystr \<Rightarrow> error + bytes" where
  "encode_utf8 (Str b) = (if is_ascii b then Inr b else Inl UnicodeDecodeError)"
| "encode_utf8 (Unicode u) = Inr (concat (map utf8_char u))"

section \<open>The archive library under the wrapper\<close>

text \<open>
  \<^verbatim>\<open>Tarball\<close> delegates every archive operation to \<^verbatim>\<open>tarfile.TarFile\<close>. The model of
  that class follows the Python 2.7 library: an archive is the list of its members in
  the order they were added, a member is its header (\<^verbatim>\<open>TarInfo\<close>) and its payload.
  Member types are regular file, directory, and one special file (a fifo, standing for
  the types that have a header and no payload); links are not modelled, the wrapper
  never writes one.
\<close>

datatype tartype = REGTYPE | DIRTYPE | FIFOTYPE

record tarinfo =
  info_name :: bytes
  info_mode :: nat
  info_mtime :: real
  info_size :: nat
  info_type :: tartype

type_synonym member = "tarinfo \<times> bytes"

text \<open>\<^verbatim>\<open>tarfile.TarInfo(name)\<close>: a header of a regular file, everything else zero.\<close>

definition TarInfo :: "bytes \<Rightarrow> tarinfo" where
  "TarInfo n = \<lparr>info_name = n, info_mode = 420, info_mtime = 0, info_size = 0,
                info_type = REGTYPE\<rparr>"

type_synonym path = string

text \<open>
  A \<^verbatim>\<open>TarFile\<close> object: the file it is bound to, its mode (one of \<^verbatim>\<open>r\<close>, \<^verbatim>\<open>a\<close>, \<^verbatim>\<open>w\<close>
  once the constructor has accepted it), the \<^verbatim>\<open>closed\<close> flag and the member list.
  In write mode the library writes each member to the file as it is added and the
  end-of-archive blocks at \<^verbatim>\<open>close()\<close>; the model keeps the members in the object and
  puts the archive into the file system at \<^verbatim>\<open>close()\<close>.
\<close>

record tarfile =
  tf_path :: path
  tf_mode :: char
  tf_closed :: bool
  tf_members :: "member list"

text \<open>
  \<^verbatim>\<open>TarFile._check(mode)\<close>:
  \<^verbatim>\<open>if self.closed: raise IOError("%s is closed" % self.__class__.__name__)\<close>, then
  \<^verbatim>\<open>if mode is not None and self.mode not in mode: raise IOError("bad operation for mode %r" % self.mode)\<close>.
\<close>

definition check :: "tarfile \<Rightarrow> string option \<Rightarrow> error + unit" where
  "check tf m =
     (if tf_closed tf then Inl (IOError ''TarFile is closed'')
      else case m of
        None \<Rightarrow> Inr ()
      | Some ms \<Rightarrow>
          if tf_mode tf \<in> set ms then Inr ()
          else Inl (IOError ''bad operation for mode''))"

text \<open>\<^verbatim>\<open>TarFile.getmembers()\<close> and \<^verbatim>\<open>TarFile.getnames()\<close>.\<close>

definition getmembers :: "tarfile \<Rightarrow> error + member list" where
  "getmembers tf = (case check tf None of Inl e \<Rightarrow> Inl e | Inr _ \<Rightarrow> Inr (tf_members tf))"

definition TarFile_getnames :: "tarfile \<Rightarrow> error + bytes list" where
  "TarFile_getnames tf =
     (case getmembers tf of Inl e \<Rightarrow> Inl e | Inr ms \<Rightarrow> Inr (map (\<lambda>m. info_name (fst m)) ms))"

text \<open>
  \<^verbatim>\<open>TarFile._getmember(name)\<close> searches \<^verbatim>\<open>reversed(members)\<close>, so of two members with one
  name the later one is found; \<^verbatim>\<open>TarFile.getmember(name)\<close> raises \<^verbatim>\<open>KeyError\<close> when
  there is none.
\<close>

definition getmember :: "tarfile \<Rightarrow> bytes \<Rightarrow> error + member" where
  "getmember tf n =
     (case getmembers tf of
        Inl e \<Rightarrow> Inl e
      | Inr ms \<Rightarrow>
          (case find (\<lambda>m. info_name (fst m) = n) (rev ms) of
             None \<Rightarrow> Inl KeyError
           | Some m \<Rightarrow> Inr m))"

text \<open>
  \<^verbatim>\<open>TarFile.extractfile(member)\<close> with a name: \<^verbatim>\<open>self._check("r")\<close>, then
  \<^verbatim>\<open>self.getmember(member)\<close>, then a file object for a regular file and \<^verbatim>\<open>None\<close> for a
  member that is none. The file object is modelled by the bytes \<^verbatim>\<open>read()\<close> returns.
\<close>

definition extractfile :: "tarfile \<Rightarrow> bytes \<Rightarrow> error + bytes option" where
  "extractfile tf n =
     (case check tf (Some ''r'') of
        Inl e \<Rightarrow> Inl e
      | Inr _ \<Rightarrow>
          (case getmember tf n of
             Inl e \<Rightarrow> Inl e
           | Inr m \<Rightarrow> if info_type (fst m) = REGTYPE then Inr (Some (snd m)) else Inr None))"

text \<open>
  \<^verbatim>\<open>TarFile.addfile(tarinfo, fileobj)\<close>: \<^verbatim>\<open>self._check("aw")\<close>, the header, then
  \<^verbatim>\<open>tarinfo.size\<close> bytes copied from \<^verbatim>\<open>fileobj\<close> (\<^verbatim>\<open>copyfileobj\<close> raises
  \<^verbatim>\<open>IOError("end of file reached")\<close> when the file object is shorter), then
  \<^verbatim>\<open>self.members.append(tarinfo)\<close>. The first component of the result is what the call
  returns or raises, the second the object afterwards.
\<close>

definition addfile :: "tarfile \<Rightarrow> tarinfo \<Rightarrow> bytes option \<Rightarrow> (error + unit) \<times> tarfile" where
  "addfile tf info fileobj =
     (case check tf (Some ''aw'') of
        Inl e \<Rightarrow> (Inl e, tf)
      | Inr _ \<Rightarrow>
          (case fileobj of
             None \<Rightarrow> (Inr (), tf\<lparr>tf_members := tf_members tf @ [(info, [])]\<rparr>)
           | Some buf \<Rightarrow>
               if length buf < info_size info then (Inl (IOError ''end of file reached''), tf)
               else (Inr (), tf\<lparr>tf_members := tf_members tf @ [(info, take (info_size info) buf)]\<rparr>)))"

section \<open>The file system\<close>

text \<open>
  A file holds what the two libraries find in it: a tar archive; a tar archive compressed
  with gzip or bzip2, which \<^verbatim>\<open>tarfile.open\<close> reads and \<^verbatim>\<open>tarfile.TarFile\<close> does not; a zip
  archive (a list of members, each a file name and its data); bytes with the
  end-of-central-directory record of a zip archive that \<^verbatim>\<open>zipfile.ZipFile\<close> cannot read
  as one; or other bytes. A directory holds a tree of files and directories, its entries
  in the order \<^verbatim>\<open>os.listdir\<close> gives them.
\<close>

type_synonym zmember = "bytes \<times> bytes"

datatype content =
    Tar "member list" | Compressed "member list" | Zip "zmember list" | BrokenZip bytes
  | Raw bytes

datatype tree = TFile bytes | TDir "(string \<times> tree) list"

datatype node = File content | Dir "(string \<times> tree) list"

type_synonym filesystem = "path \<Rightarrow> node option"

text \<open>
  What a header keeps of a name. The name field is terminated by a NUL byte
  (\<^verbatim>\<open>tarfile.nts\<close> reads a field up to the first one, also the field of a long name),
  so a member read back from an archive has its name cut there. The header of a
  directory is written with \<^verbatim>\<open>/\<close> after the name and read with the slashes at the end
  removed. The other fields are kept as they are in the model: the format rounds
  \<^verbatim>\<open>mtime\<close> to whole seconds and keeps twelve bits of \<^verbatim>\<open>mode\<close>, and nothing below
  reads those back from a file.
\<close>

definition nts :: "bytes \<Rightarrow> bytes" where
  "nts b = takeWhile (\<lambda>c. c \<noteq> CHR 0x00) b"

definition rstrip_slash :: "string \<Rightarrow> string" where
  "rstrip_slash n = rev (dropWhile (\<lambda>c. c = CHR ''/'') (rev n))"

definition on_disk :: "member \<Rightarrow> member" where
  "on_disk m =
     ((fst m)\<lparr>info_name :=
         (if info_type (fst m) = DIRTYPE then rstrip_slash (nts (info_name (fst m) @ ''/''))
          else nts (info_name (fst m)))\<rparr>,
      snd m)"

text \<open>
  \<^verbatim>\<open>TarFile.close()\<close>: nothing on a closed object; in mode \<^verbatim>\<open>a\<close> or \<^verbatim>\<open>w\<close> the archive
  is completed, which is where the model stores it in the file.
\<close>

definition TarFile_close :: "tarfile \<Rightarrow> filesystem \<Rightarrow> tarfile \<times> filesystem" where
  "TarFile_close tf fs =
     (if tf_closed tf then (tf, fs)
      else (tf\<lparr>tf_closed := True\<rparr>,
            if tf_mode tf \<in> set ''aw''
            then fs(tf_path tf := Some (File (Tar (map on_disk (tf_members tf)))))
            else fs))"

text \<open>
  \<^verbatim>\<open>tarfile.TarFile(name=name, mode=mode)\<close>. The mode must be one character of
  \<^verbatim>\<open>"raw"\<close>: \<^verbatim>\<open>if len(mode) > 1 or mode not in "raw": raise ValueError\<close>; the empty
  string passes that test and fails in the lookup of the file mode with \<^verbatim>\<open>KeyError\<close>.
  Mode \<^verbatim>\<open>r\<close> opens the file and reads the archive; \<^verbatim>\<open>w\<close> creates or truncates the
  file; \<^verbatim>\<open>a\<close> is \<^verbatim>\<open>w\<close> when the file does not exist and otherwise reads the archive
  to append to it.
\<close>

definition TarFile_init ::
  "filesystem \<Rightarrow> path \<Rightarrow> string \<Rightarrow> (error + tarfile) \<times> filesystem" where
  "TarFile_init fs name mode =
     (if mode = [] then (Inl KeyError, fs)
      else if mode = ''r'' then
        (case fs name of
           None \<Rightarrow> (Inl (IOError ''No such file or directory''), fs)
         | Some (Dir _) \<Rightarrow> (Inl (IOError ''Is a directory''), fs)
         | Some (File (Tar ms)) \<Rightarrow>
             (Inr \<lparr>tf_path = name, tf_mode = CHR ''r'', tf_closed = False, tf_members = ms\<rparr>, fs)
         | Some (File _) \<Rightarrow> (Inl ReadError, fs))
      else if mode = ''w'' then
        (case fs name of
           Some (Dir _) \<Rightarrow> (Inl (IOError ''Is a directory''), fs)
         | _ \<Rightarrow>
             (Inr \<lparr>tf_path = name, tf_mode = CHR ''w'', tf_closed = False, tf_members = []\<rparr>,
              fs(name := Some (File (Raw [])))))
      else if mode = ''a'' then
        (case fs name of
           None \<Rightarrow>
             (Inr \<lparr>tf_path = name, tf_mode = CHR ''w'', tf_closed = False, tf_members = []\<rparr>,
              fs(name := Some (File (Raw []))))
         | Some (Dir _) \<Rightarrow> (Inl (IOError ''Is a directory''), fs)
         | Some (File (Tar ms)) \<Rightarrow>
             (Inr \<lparr>tf_path = name, tf_mode = CHR ''a'', tf_closed = False, tf_members = ms\<rparr>, fs)
         | Some (File _) \<Rightarrow> (Inl ReadError, fs))
      else (Inl ValueError, fs))"

text \<open>
  \<^verbatim>\<open>tarfile.is_tarfile(name)\<close> opens the archive with \<^verbatim>\<open>tarfile.open\<close>, which tries the
  plain and the compressed formats in turn, and answers whether that worked; only a
  \<^verbatim>\<open>TarError\<close> is caught, so a missing file or a directory raises \<^verbatim>\<open>IOError\<close>.
  \<^verbatim>\<open>zipfile.is_zipfile(name)\<close> looks for the end-of-central-directory record and nothing
  else; it catches \<^verbatim>\<open>IOError\<close> and answers \<^verbatim>\<open>False\<close>.
\<close>

definition is_tarfile :: "filesystem \<Rightarrow> path \<Rightarrow> error + bool" where
  "is_tarfile fs name =
     (case fs name of
        None \<Rightarrow> Inl (IOError ''No such file or directory'')
      | Some (Dir _) \<Rightarrow> Inl (IOError ''Is a directory'')
      | Some (File (Tar _)) \<Rightarrow> Inr True
      | Some (File (Compressed _)) \<Rightarrow> Inr True
      | Some (File _) \<Rightarrow> Inr False)"

definition is_zipfile :: "filesystem \<Rightarrow> path \<Rightarrow> bool" where
  "is_zipfile fs name =
     (case fs name of
        Some (File (Zip _)) \<Rightarrow> True
      | Some (File (BrokenZip _)) \<Rightarrow> True
      | _ \<Rightarrow> False)"

section \<open>The environment of the zip conversion\<close>

text \<open>
  What the operating system contributes to \<^verbatim>\<open>Tarball.__init__\<close>: the clock
  (\<^verbatim>\<open>time.time()\<close>), the names \<^verbatim>\<open>tempfile.mkdtemp()\<close> and \<^verbatim>\<open>tempfile.mkstemp()\<close> choose,
  and which of the calls in the \<^verbatim>\<open>try\<close> block fails for a reason outside the program
  (no space, no file descriptor, a damaged zip member), with the exception it raises.
\<close>

datatype call =
    Mkdtemp | Mkstemp | Fdopen | ZipFile_call | Extractall | TarFile_call | Add_call | Close_call

record env =
  now :: real
  new_dir :: path
  new_file :: path
  fault :: "call \<Rightarrow> error option"

definition mkdtemp :: "env \<Rightarrow> filesystem \<Rightarrow> error + (path \<times> filesystem)" where
  "mkdtemp e fs =
     (case fault e Mkdtemp of
        Some x \<Rightarrow> Inl x
      | None \<Rightarrow>
          (case fs (new_dir e) of
             Some _ \<Rightarrow> Inl (OSError ''File exists'')
           | None \<Rightarrow> Inr (new_dir e, fs(new_dir e := Some (Dir [])))))"

definition mkstemp :: "env \<Rightarrow> filesystem \<Rightarrow> error + (path \<times> filesystem)" where
  "mkstemp e fs =
     (case fault e Mkstemp of
        Some x \<Rightarrow> Inl x
      | None \<Rightarrow>
          (case fs (new_file e) of
             Some _ \<Rightarrow> Inl (OSError ''File exists'')
           | None \<Rightarrow> Inr (new_file e, fs(new_file e := Some (File (Raw []))))))"

text \<open>\<^verbatim>\<open>os.fdopen(tmp_fd, 'w')\<close>: the file object, known by the file it writes.\<close>

definition fdopen :: "env \<Rightarrow> path \<Rightarrow> error + path" where
  "fdopen e n = (case fault e Fdopen of Some x \<Rightarrow> Inl x | None \<Rightarrow> Inr n)"

definition os_unlink :: "filesystem \<Rightarrow> path \<Rightarrow> (error + unit) \<times> filesystem" where
  "os_unlink fs n =
     (case fs n of
        Some (File _) \<Rightarrow> (Inr (), fs(n := None))
      | Some (Dir _) \<Rightarrow> (Inl (OSError ''Is a directory''), fs)
      | None \<Rightarrow> (Inl (OSError ''No such file or directory''), fs))"

definition rmtree :: "filesystem \<Rightarrow> path \<Rightarrow> (error + unit) \<times> filesystem" where
  "rmtree fs d =
     (case fs d of
        Some (Dir _) \<Rightarrow> (Inr (), fs(d := None))
      | Some (File _) \<Rightarrow> (Inl (OSError ''Not a directory''), fs)
      | None \<Rightarrow> (Inl (OSError ''No such file or directory''), fs))"

subsection \<open>\<^verbatim>\<open>zipfile.ZipFile\<close>\<close>

text \<open>
  \<^verbatim>\<open>zipfile.ZipFile(name)\<close> reads the central directory and raises \<^verbatim>\<open>BadZipfile\<close> when it
  cannot.
\<close>

definition ZipFile :: "env \<Rightarrow> filesystem \<Rightarrow> path \<Rightarrow> error + zmember list" where
  "ZipFile e fs name =
     (case fault e ZipFile_call of
        Some x \<Rightarrow> Inl x
      | None \<Rightarrow>
          (case fs name of
             Some (File (Zip zs)) \<Rightarrow> Inr zs
           | Some (File _) \<Rightarrow> Inl BadZipfile
           | Some (Dir _) \<Rightarrow> Inl (IOError ''Is a directory'')
           | None \<Rightarrow> Inl (IOError ''No such file or directory'')))"

text \<open>Whether a node of a directory tree is a file.\<close>

fun is_file :: "tree \<Rightarrow> bool" where
  "is_file (TFile d) = True"
| "is_file (TDir es) = False"

text \<open>
  \<^verbatim>\<open>ZipFile.extractall(path)\<close> extracts the members in order. A member's file name is
  split at \<^verbatim>\<open>/\<close> and the empty, \<^verbatim>\<open>.\<close> and \<^verbatim>\<open>..\<close> parts are dropped (as the library
  does since Python 2.7.4); the directories
  above the target are created; a name that ends in \<^verbatim>\<open>/\<close> is a directory to make,
  any other a file to write, over a file of that name if there is one. Where a file
  stands in the place of a directory, the call that meets it decides the exception:
  \<^verbatim>\<open>os.makedirs\<close> and \<^verbatim>\<open>os.mkdir\<close> raise \<^verbatim>\<open>OSError\<close>, opening the target for writing
  raises \<^verbatim>\<open>IOError\<close>.
\<close>

fun split_path :: "string \<Rightarrow> string list" where
  "split_path [] = [[]]"
| "split_path (c # cs) =
     (if c = CHR ''/'' then [] # split_path cs
      else (case split_path cs of [] \<Rightarrow> [[c]] | p # ps \<Rightarrow> (c # p) # ps))"

definition arcname_parts :: "string \<Rightarrow> string list" where
  "arcname_parts n = filter (\<lambda>x. x \<noteq> [] \<and> x \<noteq> ''.'' \<and> x \<noteq> ''..'') (split_path n)"

fun put :: "string list \<Rightarrow> tree \<Rightarrow> (string \<times> tree) list \<Rightarrow> error + (string \<times> tree) list" where
  "put [] leaf es = Inr es"
| "put [c] leaf es =
     (case map_of es c of
        None \<Rightarrow> Inr (es @ [(c, leaf)])
      | Some (TFile _) \<Rightarrow>
          (case leaf of
             TFile _ \<Rightarrow> Inr (AList.update c leaf es)
           | TDir _ \<Rightarrow> Inl (OSError ''File exists''))
      | Some (TDir _) \<Rightarrow>
          (case leaf of
             TFile _ \<Rightarrow> Inl (IOError ''Is a directory'')
           | TDir _ \<Rightarrow> Inr es))"
| "put (c # cs) leaf es =
     (case map_of es c of
        None \<Rightarrow>
          (case put cs leaf [] of Inl x \<Rightarrow> Inl x | Inr sub \<Rightarrow> Inr (es @ [(c, TDir sub)]))
      | Some (TFile _) \<Rightarrow>
          Inl (if length cs = 1 \<and> is_file leaf then IOError ''Not a directory''
               else OSError ''Not a directory'')
      | Some (TDir sub0) \<Rightarrow>
          (case put cs leaf sub0 of
             Inl x \<Rightarrow> Inl x
           | Inr sub \<Rightarrow> Inr (AList.update c (TDir sub) es)))"

definition extract_member :: "zmember \<Rightarrow> (string \<times> tree) list \<Rightarrow> error + (string \<times> tree) list" where
  "extract_member z es =
     (let filename = fst z; parts = arcname_parts filename in
      if filename = [] then Inl IndexError
      else if last filename = CHR ''/'' then
        (if parts = [] then Inr es else put parts (TDir []) es)
      else
        (if parts = [] then Inl (IOError ''Is a directory'') else put parts (TFile (snd z)) es))"

fun extract_members :: "zmember list \<Rightarrow> (string \<times> tree) list \<Rightarrow> error + (string \<times> tree) list" where
  "extract_members [] es = Inr es"
| "extract_members (z # zs) es =
     (case extract_member z es of Inl x \<Rightarrow> Inl x | Inr es' \<Rightarrow> extract_members zs es')"

definition extractall ::
  "env \<Rightarrow> zmember list \<Rightarrow> path \<Rightarrow> filesystem \<Rightarrow> (error + unit) \<times> filesystem" where
  "extractall e zs d fs =
     (case fault e Extractall of
        Some x \<Rightarrow> (Inl x, fs)
      | None \<Rightarrow>
          (case fs d of
             Some (Dir es) \<Rightarrow>
               (case extract_members zs es of
                  Inl x \<Rightarrow> (Inl x, fs)
                | Inr es' \<Rightarrow> (Inr (), fs(d := Some (Dir es'))))
           | _ \<Rightarrow> (Inl (OSError ''Not a directory''), fs)))"

subsection \<open>\<^verbatim>\<open>TarFile.add\<close> on the scratch directory\<close>

text \<open>
  \<^verbatim>\<open>tar.add(tmp_dir, arcname='')\<close> adds the directory itself under the name \<^verbatim>\<open>''\<close> and
  then, for each \<^verbatim>\<open>f\<close> of \<^verbatim>\<open>os.listdir\<close>, the entry under
  \<^verbatim>\<open>os.path.join(arcname, f)\<close>, directories recursively. The header of an entry comes
  from \<^verbatim>\<open>os.lstat\<close>: the size of a file is the length of its data, the time is the
  time of the extraction, the permissions are those of a umask of 022 (and 0700 for
  the directory \<^verbatim>\<open>mkdtemp\<close> made).
\<close>

definition path_join :: "string \<Rightarrow> string \<Rightarrow> string" where
  "path_join a f = (if a = [] then f else a @ ''/'' @ f)"

fun walk :: "real \<Rightarrow> nat \<Rightarrow> string \<Rightarrow> tree \<Rightarrow> member list"
  and walk_entries :: "real \<Rightarrow> string \<Rightarrow> (string \<times> tree) list \<Rightarrow> member list" where
  "walk t dmode arc (TFile d) =
     [(\<lparr>info_name = arc, info_mode = 420, info_mtime = t, info_size = length d,
        info_type = REGTYPE\<rparr>, d)]"
| "walk t dmode arc (TDir es) =
     (\<lparr>info_name = arc, info_mode = dmode, info_mtime = t, info_size = 0,
       info_type = DIRTYPE\<rparr>, []) # walk_entries t arc es"
| "walk_entries t arc [] = []"
| "walk_entries t arc (fe # es) =
     walk t 493 (path_join arc (fst fe)) (snd fe) @ walk_entries t arc es"

text \<open>\<^verbatim>\<open>tarfile.TarFile(fileobj=tmp_fo, mode='w')\<close>: a new archive written to the file object.\<close>

definition TarFile_fileobj :: "env \<Rightarrow> path \<Rightarrow> error + tarfile" where
  "TarFile_fileobj e fo =
     (case fault e TarFile_call of
        Some x \<Rightarrow> Inl x
      | None \<Rightarrow> Inr \<lparr>tf_path = fo, tf_mode = CHR ''w'', tf_closed = False, tf_members = []\<rparr>)"

definition TarFile_add ::
  "env \<Rightarrow> tarfile \<Rightarrow> path \<Rightarrow> string \<Rightarrow> filesystem \<Rightarrow> (error + unit) \<times> tarfile" where
  "TarFile_add e tf d arcname fs =
     (case check tf (Some ''aw'') of
        Inl x \<Rightarrow> (Inl x, tf)
      | Inr _ \<Rightarrow>
          (case fault e Add_call of
             Some x \<Rightarrow> (Inl x, tf)
           | None \<Rightarrow>
               (case fs d of
                  Some (Dir es) \<Rightarrow>
                    (Inr (), tf\<lparr>tf_members := tf_members tf @ walk (now e) 448 arcname (TDir es)\<rparr>)
                | _ \<Rightarrow> (Inl (OSError ''No such file or directory''), tf))))"

definition TarFile_close_call ::
  "env \<Rightarrow> tarfile \<Rightarrow> filesystem \<Rightarrow> (error + unit) \<times> tarfile \<times> filesystem" where
  "TarFile_close_call e tf fs =
     (case fault e Close_call of
        Some x \<Rightarrow> (Inl x, tf, fs)
      | None \<Rightarrow> (Inr (), TarFile_close tf fs))"

section \<open>The class \<^verbatim>\<open>Tarball\<close>\<close>

record tarball =
  self_tar :: tarfile
  self_mtime :: real

definition startswith :: "string \<Rightarrow> string \<Rightarrow> bool" where
  "startswith s p = (take (length p) s = p)"

subsection \<open>The zip branch of \<^verbatim>\<open>__init__\<close>\<close>

text \<open>
  The local variables the \<^verbatim>\<open>finally\<close> clause reads. Each is bound by an assignment
  inside the \<^verbatim>\<open>try\<close> block, so each is unbound (\<open>None\<close>) until that assignment has
  run.
\<close>

record locals =
  tmp_dir :: "path option"
  tmp_name :: "path option"
  tmp_fo :: "path option"

definition no_locals :: locals where
  "no_locals = \<lparr>tmp_dir = None, tmp_name = None, tmp_fo = None\<rparr>"

text \<open>
  The \<^verbatim>\<open>try\<close> block, lines 84 to 95: the locals as they stand when the block is left,
  the file system, and the \<^verbatim>\<open>TarFile\<close> assigned to \<^verbatim>\<open>self.__tar\<close> or the exception that
  left the block. The scratch file holds the archive from \<^verbatim>\<open>tar.close()\<close> on; the library
  may keep the last bytes in the buffer of \<^verbatim>\<open>tmp_fo\<close> until the \<^verbatim>\<open>finally\<close> clause closes
  it, and the \<^verbatim>\<open>TarFile\<close> of line 95 reads the members through its own descriptor after
  that, so the difference is not seen.
\<close>

definition convert_try ::
  "env \<Rightarrow> filesystem \<Rightarrow> path \<Rightarrow> string \<Rightarrow> locals \<times> filesystem \<times> (error + tarfile)" where
  "convert_try e fs name mode =
     (case mkdtemp e fs of
        Inl x \<Rightarrow> (no_locals, fs, Inl x)
      | Inr (d, fs1) \<Rightarrow>
          let l1 = no_locals\<lparr>tmp_dir := Some d\<rparr> in
          (case mkstemp e fs1 of
             Inl x \<Rightarrow> (l1, fs1, Inl x)
           | Inr (n, fs2) \<Rightarrow>
               let l2 = l1\<lparr>tmp_name := Some n\<rparr> in
               (case fdopen e n of
                  Inl x \<Rightarrow> (l2, fs2, Inl x)
                | Inr fo \<Rightarrow>
                    let l3 = l2\<lparr>tmp_fo := Some fo\<rparr> in
                    (case ZipFile e fs2 name of
                       Inl x \<Rightarrow> (l3, fs2, Inl x)
                     | Inr zf \<Rightarrow>
                         (case extractall e zf d fs2 of
                            (Inl x, fs3) \<Rightarrow> (l3, fs3, Inl x)
                          | (Inr _, fs3) \<Rightarrow>
                              (case TarFile_fileobj e fo of
                                 Inl x \<Rightarrow> (l3, fs3, Inl x)
                               | Inr tar0 \<Rightarrow>
                                   (case TarFile_add e tar0 d [] fs3 of
                                      (Inl x, _) \<Rightarrow> (l3, fs3, Inl x)
                                    | (Inr _, tar1) \<Rightarrow>
                                        (case TarFile_close_call e tar1 fs3 of
                                           (Inl x, _, fs4) \<Rightarrow> (l3, fs4, Inl x)
                                         | (Inr _, _, fs4) \<Rightarrow>
                                             (case TarFile_init fs4 n mode of
                                                (r, fs5) \<Rightarrow> (l3, fs5, r))))))))))"

text \<open>
  The \<^verbatim>\<open>finally\<close> clause, lines 97 to 99: \<^verbatim>\<open>tmp_fo.close()\<close>,
  \<^verbatim>\<open>os.unlink(tmp_name)\<close>, \<^verbatim>\<open>shutil.rmtree(tmp_dir)\<close>. Reading an unbound local raises
  \<^verbatim>\<open>UnboundLocalError\<close> and the statements after it do not run.
\<close>

definition convert_finally :: "locals \<Rightarrow> filesystem \<Rightarrow> (error + unit) \<times> filesystem" where
  "convert_finally l fs =
     (case tmp_fo l of
        None \<Rightarrow> (Inl UnboundLocalError, fs)
      | Some fo \<Rightarrow>
          (case tmp_name l of
             None \<Rightarrow> (Inl UnboundLocalError, fs)
           | Some n \<Rightarrow>
               (case os_unlink fs n of
                  (Inl x, fs1) \<Rightarrow> (Inl x, fs1)
                | (Inr _, fs1) \<Rightarrow>
                    (case tmp_dir l of
                       None \<Rightarrow> (Inl UnboundLocalError, fs1)
                     | Some d \<Rightarrow> rmtree fs1 d))))"

text \<open>
  \<^verbatim>\<open>try: ... finally: ...\<close>: the clause always runs; an exception it raises replaces
  the one that left the block, otherwise the block's outcome stands.
\<close>

definition convert ::
  "env \<Rightarrow> filesystem \<Rightarrow> path \<Rightarrow> string \<Rightarrow> (error + tarfile) \<times> filesystem" where
  "convert e fs name mode =
     (case convert_try e fs name mode of
        (l, fs1, r) \<Rightarrow>
          (case convert_finally l fs1 of
             (Inl x, fs2) \<Rightarrow> (Inl x, fs2)
           | (Inr _, fs2) \<Rightarrow> (r, fs2)))"

subsection \<open>\<^verbatim>\<open>__init__\<close>, lines 74 to 104\<close>

definition Tarball_init ::
  "env \<Rightarrow> filesystem \<Rightarrow> path \<Rightarrow> string \<Rightarrow> real option \<Rightarrow> (error + tarball) \<times> filesystem" where
  "Tarball_init e fs name mode mtime =
     (case
        (if \<not> startswith mode ''r'' then TarFile_init fs name mode
         else
           (case is_tarfile fs name of
              Inl x \<Rightarrow> (Inl x, fs)
            | Inr True \<Rightarrow> TarFile_init fs name mode
            | Inr False \<Rightarrow>
                if \<not> is_zipfile fs name then (Inl ReadError, fs)
                else convert e fs name mode))
      of
        (Inl x, fs1) \<Rightarrow> (Inl x, fs1)
      | (Inr t, fs1) \<Rightarrow>
          (Inr \<lparr>self_tar = t,
                self_mtime =
                  (case mtime of
                     None \<Rightarrow> now e
                   | Some m \<Rightarrow> if m \<noteq> 0 then m else now e)\<rparr>,
           fs1))"

subsection \<open>The methods\<close>

text \<open>
  A method that changes the object returns what the call returns or raises together
  with the object afterwards; \<^verbatim>\<open>close\<close> also returns the file system.
\<close>

definition close :: "tarball \<Rightarrow> filesystem \<Rightarrow> tarball \<times> filesystem" where
  "close h fs = (case TarFile_close (self_tar h) fs of (t, fs1) \<Rightarrow> (h\<lparr>self_tar := t\<rparr>, fs1))"

definition getnames :: "tarball \<Rightarrow> error + bytes list" where
  "getnames h = TarFile_getnames (self_tar h)"

definition read :: "tarball \<Rightarrow> pystr \<Rightarrow> error + bytes option" where
  "read h arcname =
     (case encode_utf8 arcname of
        Inl x \<Rightarrow> Inl x
      | Inr n \<Rightarrow>
          (case extractfile (self_tar h) n of
             Inl x \<Rightarrow> Inl x
           | Inr None \<Rightarrow> Inr None
           | Inr (Some out) \<Rightarrow> Inr (Some out)))"

text \<open>
  \<^verbatim>\<open>read_pixbuf\<close>: the loader of the image library is the parameter \<open>load\<close>, from the
  bytes written to it to the pixbuf or the error of \<^verbatim>\<open>loader.write\<close> and
  \<^verbatim>\<open>loader.close\<close>; writing \<^verbatim>\<open>None\<close> to it is a \<^verbatim>\<open>TypeError\<close>.
\<close>

definition read_pixbuf :: "(bytes \<Rightarrow> error + 'p) \<Rightarrow> tarball \<Rightarrow> pystr \<Rightarrow> error + 'p" where
  "read_pixbuf load h arcname =
     (case read h arcname of
        Inl x \<Rightarrow> Inl x
      | Inr None \<Rightarrow> Inl TypeError
      | Inr (Some b) \<Rightarrow> load b)"

definition write_str :: "tarball \<Rightarrow> tarinfo \<Rightarrow> bytes \<Rightarrow> (error + unit) \<times> tarball" where
  "write_str h info data =
     (case addfile (self_tar h) (info\<lparr>info_size := length data\<rparr>) (Some data) of
        (r, t) \<Rightarrow> (r, h\<lparr>self_tar := t\<rparr>))"

text \<open>
  \<^verbatim>\<open>__write_pixbuf\<close>: \<open>save\<close> is \<^verbatim>\<open>data.save_to_callback(push, 'png', ...)\<close>, from the
  pixbuf to the bytes pushed into the buffer or the error of the encoder.
\<close>

definition write_pixbuf ::
  "('p \<Rightarrow> error + bytes) \<Rightarrow> tarball \<Rightarrow> tarinfo \<Rightarrow> 'p \<Rightarrow> (error + unit) \<times> tarball" where
  "write_pixbuf save h info data =
     (case save data of
        Inl x \<Rightarrow> (Inl x, h)
      | Inr buffer \<Rightarrow>
          (case addfile (self_tar h) (info\<lparr>info_size := length buffer\<rparr>) (Some buffer) of
             (r, t) \<Rightarrow> (r, h\<lparr>self_tar := t\<rparr>)))"

text \<open>
  \<^verbatim>\<open>write\<close>, lines 130 to 144 (named \<open>Tarball_write\<close> here).
\<close>

definition Tarball_write ::
  "('p \<Rightarrow> error + bytes) \<Rightarrow> tarball \<Rightarrow> pystr \<Rightarrow> 'p pyobj \<Rightarrow> nat \<Rightarrow> (error + unit) \<times> tarball" where
  "Tarball_write save h arcname data mode =
     (case encode_utf8 arcname of
        Inl x \<Rightarrow> (Inl x, h)
      | Inr n \<Rightarrow>
          let info = (TarInfo n)\<lparr>info_mode := mode, info_mtime := self_mtime h\<rparr> in
          (case data of
             PyString (Str s) \<Rightarrow> write_str h info s
           | Pixbuf p \<Rightarrow> write_pixbuf save h info p
           | _ \<Rightarrow> (Inl BadDataTypeError, h)))"

section \<open>A caller and example inputs\<close>

text \<open>
  A caller that writes a list of entries in order:
  \<^verbatim>\<open>for (arcname, data, mode) in ws: tar.write(arcname, data, mode)\<close>, stopping at the
  first exception.
\<close>

fun write_all ::
  "('p \<Rightarrow> error + bytes) \<Rightarrow> tarball \<Rightarrow> (pystr \<times> 'p pyobj \<times> nat) list \<Rightarrow> (error + unit) \<times> tarball" where
  "write_all save h [] = (Inr (), h)"
| "write_all save h (w # ws) =
     (case Tarball_write save h (fst w) (fst (snd w)) (snd (snd w)) of
        (Inl x, h1) \<Rightarrow> (Inl x, h1)
      | (Inr _, h1) \<Rightarrow> write_all save h1 ws)"

text \<open>
  The values \<^verbatim>\<open>write\<close> stores: a byte string, or a pixbuf the encoder accepts.
\<close>

definition supported :: "('p \<Rightarrow> error + bytes) \<Rightarrow> 'p pyobj \<Rightarrow> bool" where
  "supported save data =
     (case data of
        PyString (Str s) \<Rightarrow> True
      | Pixbuf p \<Rightarrow> (case save p of Inr _ \<Rightarrow> True | Inl _ \<Rightarrow> False)
      | _ \<Rightarrow> False)"




text \<open>
  The name \<^verbatim>\<open>TarFile.add\<close> gives the entry at a path of components below the directory
  it was called on: \<^verbatim>\<open>os.path.join\<close> applied from the left.
\<close>

definition joined :: "string \<Rightarrow> string list \<Rightarrow> string" where
  "joined arc p = foldl path_join arc p"




text \<open>
  An environment in which no call fails, one in which \<^verbatim>\<open>tempfile.mkstemp()\<close> fails, and
  a file system with a zip archive of one member, a tar archive of the same member, a
  file that is neither, a file with the end record of a zip archive and no more, the tar
  archive compressed, a zip archive with a member in a directory and an empty directory
  beside a tar archive of the same members, a zip archive with a member name that starts
  with \<^verbatim>\<open>./\<close> beside a tar archive of the same member, and a zip archive in which \<^verbatim>\<open>a\<close> is
  a file and a directory.
\<close>

definition env0 :: env where
  "env0 = \<lparr>now = 1700000000, new_dir = ''/tmp/tmpd'', new_file = ''/tmp/tmpf'',
           fault = (\<lambda>_. None)\<rparr>"

definition env_mkstemp_fails :: env where
  "env_mkstemp_fails =
     env0\<lparr>fault := (\<lambda>c. if c = Mkstemp then Some (OSError ''No space left on device'') else None)\<rparr>"

definition fs0 :: filesystem where
  "fs0 = (\<lambda>_. None)
     (''map.zip'' := Some (File (Zip [(''a'', ''xx'')])),
      ''map.tar'' := Some (File (Tar [((TarInfo ''a'')\<lparr>info_size := 2\<rparr>, ''xx'')])),
      ''junk.bin'' := Some (File (Raw ''hello'')),
      ''bad.zip'' := Some (File (BrokenZip ''PK'')),
      ''map.tar.gz'' := Some (File (Compressed [((TarInfo ''a'')\<lparr>info_size := 2\<rparr>, ''xx'')])),
      ''tree.zip'' := Some (File (Zip [(''a'', ''xx''), (''d/f'', ''yy''), (''e/'', [])])),
      ''tree.tar'' := Some (File (Tar [((TarInfo ''a'')\<lparr>info_size := 2\<rparr>, ''xx''),
                                       ((TarInfo ''d/f'')\<lparr>info_size := 2\<rparr>, ''yy''),
                                       ((TarInfo ''e'')\<lparr>info_mode := 493,
                                          info_type := DIRTYPE\<rparr>, [])])),
      ''dot.zip'' := Some (File (Zip [(''./a'', ''xx'')])),
      ''dot.tar'' := Some (File (Tar [((TarInfo ''./a'')\<lparr>info_size := 2\<rparr>, ''xx'')])),
      ''clash.zip'' := Some (File (Zip [(''a'', ''xx''), (''a/b'', ''yy'')])))"

text \<open>The handle \<^verbatim>\<open>Tarball('map.tar')\<close> gives in that file system.\<close>

definition native_handle :: tarball where
  "native_handle =
     \<lparr>self_tar = \<lparr>tf_path = ''map.tar'', tf_mode = CHR ''r'', tf_closed = False,
                  tf_members = [((TarInfo ''a'')\<lparr>info_size := 2\<rparr>, ''xx'')]\<rparr>,
      self_mtime = 1700000000\<rparr>"


text \<open>The handle \<^verbatim>\<open>Tarball('out.tar', 'w')\<close> gives.\<close>

definition fresh_handle :: tarball where
  "fresh_handle =
     \<lparr>self_tar = \<lparr>tf_path = ''out.tar'', tf_mode = CHR ''w'', tf_closed = False,
                  tf_members = []\<rparr>,
      self_mtime = 1700000000\<rparr>"

text \<open>
  The handle \<^verbatim>\<open>Tarball('out.tar')\<close> gives after \<^verbatim>\<open>write(u'a\x00b', 'xx')\<close> and \<^verbatim>\<open>close()\<close>
  on the handle above.
\<close>

definition reopened_handle :: tarball where
  "reopened_handle =
     \<lparr>self_tar = \<lparr>tf_path = ''out.tar'', tf_mode = CHR ''r'', tf_closed = False,
        tf_members =
          [(\<lparr>info_name = ''a'', info_mode = 420, info_mtime = 1700000000, info_size = 2,
             info_type = REGTYPE\<rparr>, ''xx'')]\<rparr>,
      self_mtime = 1700000000\<rparr>"

text \<open>An image library over a one-element type of pixbufs.\<close>

definition save0 :: "unit \<Rightarrow> error + bytes" where
  "save0 p = Inr ''PNG''"

definition load0 :: "bytes \<Rightarrow> error + unit" where
  "load0 b = (if b = ''PNG'' then Inr () else Inl GError)"


section \<open>Notions used in the proofs\<close>

text \<open>
  While the \<^verbatim>\<open>try\<close> block runs after its three acquisitions, the file system differs
  from the one before in the scratch directory and the scratch file only.
\<close>

definition scratch :: "filesystem \<Rightarrow> path \<Rightarrow> path \<Rightarrow> filesystem \<Rightarrow> bool" where
  "scratch fs d n fs1 = (\<exists>es c. fs1 = fs(d := Some (Dir es), n := Some (File c)))"

text \<open>
  A path component as the extraction makes them, the node of a directory tree at a path
  of components, trees whose directories list every name once, and when an archive
  member is the entry of a node.
\<close>

definition good :: "string \<Rightarrow> bool" where
  "good c = (c \<noteq> [] \<and> CHR ''/'' \<notin> set c \<and> CHR 0x00 \<notin> set c)"

fun tlookup :: "string list \<Rightarrow> (string \<times> tree) list \<Rightarrow> tree option" where
  "tlookup [] es = None"
| "tlookup [c] es = map_of es c"
| "tlookup (c # cs) es = (case map_of es c of Some (TDir sub) \<Rightarrow> tlookup cs sub | _ \<Rightarrow> None)"

fun wf_tree :: "tree \<Rightarrow> bool" and wf_entries :: "(string \<times> tree) list \<Rightarrow> bool" where
  "wf_tree (TFile d) = True"
| "wf_tree (TDir es) = wf_entries es"
| "wf_entries [] = True"
| "wf_entries (fe # es) =
     (good (fst fe) \<and> fst fe \<notin> fst ` set es \<and> wf_tree (snd fe) \<and> wf_entries es)"

definition describes :: "tree \<Rightarrow> member \<Rightarrow> bool" where
  "describes node m =
     (case node of
        TFile d \<Rightarrow> info_type (fst m) = REGTYPE \<and> snd m = d
      | TDir _ \<Rightarrow> info_type (fst m) = DIRTYPE)"



section \<open>Facts about the library model\<close>

lemma check_closed: "tf_closed tf \<Longrightarrow> check tf m = Inl (IOError ''TarFile is closed'')"
  by (simp add: check_def)

lemma check_open_r:
  "\<not> tf_closed tf \<Longrightarrow> tf_mode tf = CHR ''r'' \<Longrightarrow> check tf (Some ''r'') = Inr ()"
  by (simp add: check_def)

lemma check_open_none: "\<not> tf_closed tf \<Longrightarrow> check tf None = Inr ()"
  by (simp add: check_def)

lemma check_open_aw:
  "\<not> tf_closed tf \<Longrightarrow> tf_mode tf = CHR ''w'' \<or> tf_mode tf = CHR ''a'' \<Longrightarrow>
   check tf (Some ''aw'') = Inr ()"
  by (auto simp add: check_def)

lemma find_name_None:
  "n \<notin> set (map (\<lambda>m. info_name (fst m)) ms) \<Longrightarrow>
   find (\<lambda>m. info_name (fst m) = n) (rev ms) = None"
  by (force simp add: find_None_iff)

lemma closed_after_close: "tf_closed (self_tar (fst (close h fs)))"
  by (simp add: close_def TarFile_close_def split: prod.splits if_splits)

lemma addfile_closed:
  "tf_closed tf \<Longrightarrow> addfile tf info fo = (Inl (IOError ''TarFile is closed''), tf)"
  by (simp add: addfile_def check_closed)

lemma addfile_open:
  "\<not> tf_closed tf \<Longrightarrow> tf_mode tf = CHR ''w'' \<or> tf_mode tf = CHR ''a'' \<Longrightarrow>
   addfile tf (info\<lparr>info_size := length buf\<rparr>) (Some buf) =
     (Inr (), tf\<lparr>tf_members := tf_members tf @ [(info\<lparr>info_size := length buf\<rparr>, buf)]\<rparr>)"
  by (simp add: addfile_def check_open_aw)

lemma addfile_last:
  "addfile tf info fo = (Inr (), tf1) \<Longrightarrow>
   tf_members tf1 \<noteq> [] \<and> fst (last (tf_members tf1)) = info"
  by (auto simp add: addfile_def split: sum.splits option.splits if_splits)

lemma find_append:
  "find P (xs @ ys) = (case find P xs of None \<Rightarrow> find P ys | Some x \<Rightarrow> Some x)"
  by (induction xs) auto

lemma find_skip_root:
  "info_name (fst r) \<noteq> b \<Longrightarrow>
   find (\<lambda>m. info_name (fst m) = b) (rev (r # ms)) = find (\<lambda>m. info_name (fst m) = b) (rev ms)"
  by (simp add: find_append split: option.splits)

lemma getnames_open:
  "\<not> tf_closed (self_tar h) \<Longrightarrow>
   getnames h = Inr (map (\<lambda>m. info_name (fst m)) (tf_members (self_tar h)))"
  by (simp add: getnames_def TarFile_getnames_def getmembers_def check_open_none)

lemma write_str_open:
  assumes "\<not> tf_closed (self_tar h)"
    and "tf_mode (self_tar h) = CHR ''w'' \<or> tf_mode (self_tar h) = CHR ''a''"
    and "encode_utf8 arcname = Inr n"
  shows "Tarball_write save h arcname (PyString (Str s)) m =
           (Inr (), h\<lparr>self_tar := (self_tar h)\<lparr>tf_members := tf_members (self_tar h) @
              [(\<lparr>info_name = n, info_mode = m, info_mtime = self_mtime h,
                 info_size = length s, info_type = REGTYPE\<rparr>, s)]\<rparr>\<rparr>)"
  using assms
  by (simp add: Tarball_write_def write_str_def addfile_open TarInfo_def)

lemma write_pixbuf_open:
  assumes "\<not> tf_closed (self_tar h)"
    and "tf_mode (self_tar h) = CHR ''w'' \<or> tf_mode (self_tar h) = CHR ''a''"
    and "encode_utf8 arcname = Inr n" and "save p = Inr buf"
  shows "Tarball_write save h arcname (Pixbuf p) m =
           (Inr (), h\<lparr>self_tar := (self_tar h)\<lparr>tf_members := tf_members (self_tar h) @
              [(\<lparr>info_name = n, info_mode = m, info_mtime = self_mtime h,
                 info_size = length buf, info_type = REGTYPE\<rparr>, buf)]\<rparr>\<rparr>)"
  using assms
  by (simp add: Tarball_write_def write_pixbuf_def addfile_open TarInfo_def)

lemma nts_id: "CHR 0x00 \<notin> set b \<Longrightarrow> nts b = b"
  by (simp add: nts_def takeWhile_eq_all_conv) metis

lemma on_disk_file:
  "info_type (fst m) = REGTYPE \<Longrightarrow> CHR 0x00 \<notin> set (info_name (fst m)) \<Longrightarrow> on_disk m = m"
  by (simp add: on_disk_def nts_id)

lemma close_open_write:
  assumes "\<not> tf_closed (self_tar h)"
    and "tf_mode (self_tar h) = CHR ''w'' \<or> tf_mode (self_tar h) = CHR ''a''"
  shows "close h fs =
           (h\<lparr>self_tar := (self_tar h)\<lparr>tf_closed := True\<rparr>\<rparr>,
            fs(tf_path (self_tar h) := Some (File (Tar (map on_disk (tf_members (self_tar h)))))))"
  using assms by (auto simp add: close_def TarFile_close_def)

lemma init_read_tar:
  assumes "fs name = Some (File (Tar ms))"
  shows "Tarball_init e fs name ''r'' mtime =
           (Inr \<lparr>self_tar = \<lparr>tf_path = name, tf_mode = CHR ''r'', tf_closed = False,
                              tf_members = ms\<rparr>,
                 self_mtime = (case mtime of None \<Rightarrow> now e
                               | Some m \<Rightarrow> if m \<noteq> 0 then m else now e)\<rparr>, fs)"
  using assms
  by (simp add: Tarball_init_def startswith_def is_tarfile_def TarFile_init_def)

lemma read_last_written:
  assumes "encode_utf8 arcname = Inr n"
    and "tf_members (self_tar h) = ms @ [(info, s)]" and "info_name info = n"
    and "info_type info = REGTYPE"
    and "\<not> tf_closed (self_tar h)" and "tf_mode (self_tar h) = CHR ''r''"
  shows "read h arcname = Inr (Some s)"
  using assms
  by (simp add: read_def extractfile_def getmember_def getmembers_def check_open_r check_open_none)

section \<open>Reading a name that is not in the archive\<close>

text \<open>
  Claim C1, as the code has it. \<^verbatim>\<open>read\<close> hands the encoded name to
  \<^verbatim>\<open>TarFile.extractfile\<close>, and the lookup in there raises \<^verbatim>\<open>KeyError\<close> for a name
  no member has; nothing in \<^verbatim>\<open>read\<close> catches it. So for every open read-mode handle
  and every name that encodes to bytes no member is called, \<^verbatim>\<open>read(name)\<close> raises
  \<^verbatim>\<open>KeyError\<close>. The \<^verbatim>\<open>return None\<close> of line 118 is taken exactly when the name is that
  of a member which is not a regular file (a directory, say).
\<close>

theorem read_missing_KeyError:
  assumes "\<not> tf_closed (self_tar h)" and "tf_mode (self_tar h) = CHR ''r''"
    and "encode_utf8 arcname = Inr n"
  shows "(n \<notin> set (map (\<lambda>m. info_name (fst m)) (tf_members (self_tar h)))
            \<longrightarrow> read h arcname = Inl KeyError)
       \<and> (read h arcname = Inr None \<longleftrightarrow>
            (\<exists>m. find (\<lambda>m. info_name (fst m) = n) (rev (tf_members (self_tar h))) = Some m
                 \<and> info_type (fst m) \<noteq> REGTYPE))"
  using assms
  by (auto simp add: read_def extractfile_def getmember_def getmembers_def check_open_r
      check_open_none find_name_None split: option.splits sum.splits)

text \<open>The theorem at the handle on \<^verbatim>\<open>map.tar\<close> and the name \<^verbatim>\<open>u'b'\<close>.\<close>

theorem read_missing_KeyError_witness:
  "read native_handle (Unicode [98]) = Inl KeyError
   \<and> read native_handle (Unicode [98]) \<noteq> Inr None"
proof -
  have 1: "\<not> tf_closed (self_tar native_handle)"
    and 2: "tf_mode (self_tar native_handle) = CHR ''r''"
    by (simp_all add: native_handle_def)
  have 3: "encode_utf8 (Unicode [98]) = Inr ''b''"
    by code_simp
  have 4: "''b'' \<notin> set (map (\<lambda>m. info_name (fst m)) (tf_members (self_tar native_handle)))"
    by (simp add: native_handle_def TarInfo_def)
  show ?thesis
    using read_missing_KeyError [OF 1 2 3] 4 by simp
qed

text \<open>
  Claim C1 as the specification words it fails: \<^verbatim>\<open>Tarball('map.tar')\<close> opens the archive
  with the one member \<^verbatim>\<open>a\<close>, and \<^verbatim>\<open>read('b')\<close> on it raises \<^verbatim>\<open>KeyError\<close> instead of
  returning \<^verbatim>\<open>None\<close>.
\<close>

theorem read_missing_counterexample:
  "Tarball_init env0 fs0 ''map.tar'' ''r'' None = (Inr native_handle, fs0)
   \<and> getnames native_handle = Inr [''a'']
   \<and> read native_handle (Str ''b'') = Inl KeyError
   \<and> read native_handle (Str ''b'') \<noteq> Inr None"
  by (simp add: Tarball_init_def startswith_def is_tarfile_def fs0_def TarFile_init_def env0_def
      native_handle_def read_def is_ascii_def extractfile_def check_def getmember_def
      getmembers_def TarInfo_def getnames_def TarFile_getnames_def)

section \<open>The scratch directory and the scratch file\<close>

lemma scratch_upd_dir: "scratch fs d n fs1 \<Longrightarrow> d \<noteq> n \<Longrightarrow> scratch fs d n (fs1(d := Some (Dir es)))"
  unfolding scratch_def by (metis fun_upd_twist fun_upd_upd)

lemma scratch_upd_file: "scratch fs d n fs1 \<Longrightarrow> scratch fs d n (fs1(n := Some (File c)))"
  unfolding scratch_def by (metis fun_upd_upd)

lemma scratch_lookup:
  "scratch fs d n fs1 \<Longrightarrow> d \<noteq> n \<Longrightarrow> (\<exists>es. fs1 d = Some (Dir es)) \<and> (\<exists>c. fs1 n = Some (File c))"
  unfolding scratch_def by auto

lemma extractall_scratch:
  "scratch fs d n fs1 \<Longrightarrow> d \<noteq> n \<Longrightarrow> scratch fs d n (snd (extractall e zs d fs1))"
  by (auto simp add: extractall_def scratch_upd_dir split: option.splits node.splits sum.splits)

lemma TarFile_init_scratch:
  "scratch fs d n fs1 \<Longrightarrow> d \<noteq> n \<Longrightarrow> scratch fs d n (snd (TarFile_init fs1 n mode))"
  using scratch_lookup [of fs d n fs1]
  by (auto simp add: TarFile_init_def scratch_upd_file split: option.splits node.splits content.splits)

lemma TarFile_close_scratch:
  "scratch fs d n fs1 \<Longrightarrow> tf_path tf = n \<Longrightarrow> scratch fs d n (snd (TarFile_close tf fs1))"
  by (auto simp add: TarFile_close_def scratch_upd_file)

lemma finally_scratch:
  assumes "scratch fs d n fs1" and "d \<noteq> n" and "fs d = None" and "fs n = None"
  shows "convert_finally \<lparr>tmp_dir = Some d, tmp_name = Some n, tmp_fo = Some fo\<rparr> fs1 = (Inr (), fs)"
proof -
  obtain es c where fs1: "fs1 = fs(d := Some (Dir es), n := Some (File c))"
    using assms(1) by (auto simp add: scratch_def)
  have "(fs1(n := None))(d := None) = fs"
    using assms(2-4) by (auto simp add: fs1 fun_eq_iff)
  then show ?thesis
    using assms(2) by (simp add: convert_finally_def os_unlink_def rmtree_def fs1)
qed

lemma convert_try_acquired:
  assumes "fault e Mkdtemp = None" and "fault e Mkstemp = None" and "fault e Fdopen = None"
    and "fs (new_dir e) = None" and "fs (new_file e) = None" and "new_dir e \<noteq> new_file e"
  shows "\<exists>fs1 r. convert_try e fs name mode =
           (\<lparr>tmp_dir = Some (new_dir e), tmp_name = Some (new_file e), tmp_fo = Some (new_file e)\<rparr>,
            fs1, r) \<and> scratch fs (new_dir e) (new_file e) fs1"
proof -
  define d where "d = new_dir e"
  define n where "n = new_file e"
  define fs2 where "fs2 = fs(d := Some (Dir []), n := Some (File (Raw [])))"
  have s2: "scratch fs d n fs2"
    by (auto simp add: scratch_def fs2_def)
  have dn: "d \<noteq> n"
    using assms(6) by (simp add: d_def n_def)
  have m1: "mkdtemp e fs = Inr (d, fs(d := Some (Dir [])))"
    using assms by (simp add: mkdtemp_def d_def)
  have m2: "mkstemp e (fs(d := Some (Dir []))) = Inr (n, fs2)"
    using assms by (simp add: mkstemp_def d_def n_def fs2_def)
  have m3: "fdopen e n = Inr n"
    using assms by (simp add: fdopen_def)
  have s3: "scratch fs d n fs3" if "extractall e zs d fs2 = (r, fs3)" for zs r fs3
    using extractall_scratch [OF s2 dn, of e zs] that by simp
  have p: "tf_path tar1 = n"
    if "TarFile_fileobj e n = Inr tar0" "TarFile_add e tar0 d [] fs3 = (r, tar1)"
    for tar0 tar1 fs3 r
    using that
    by (auto simp add: TarFile_fileobj_def TarFile_add_def
        split: option.splits sum.splits node.splits)
  have s4: "scratch fs d n fs4"
    if "scratch fs d n fs3" "tf_path tf = n" "TarFile_close_call e tf fs3 = (r, tf1, fs4)"
    for tf fs3 r tf1 fs4
    using TarFile_close_scratch [OF that(1,2)] that(1,3)
    by (auto simp add: TarFile_close_call_def split: option.splits)
  have s5: "scratch fs d n fs5" if "scratch fs d n fs4" "TarFile_init fs4 n mode = (r, fs5)"
    for fs4 r fs5
    using TarFile_init_scratch [OF that(1) dn, of mode] that(2) by simp
  show ?thesis
  proof (cases "ZipFile e fs2 name")
    case (Inl x)
    then show ?thesis
      unfolding convert_try_def m1 d_def [symmetric] n_def [symmetric]
      using s2 by (simp add: m2 m3 no_locals_def)
  next
    case zf: (Inr zf)
    obtain r3 fs3 where e3: "extractall e zf d fs2 = (r3, fs3)"
      by (cases "extractall e zf d fs2")
    note sc3 = s3 [OF e3]
    show ?thesis
    proof (cases r3)
      case (Inl x)
      then show ?thesis
        unfolding convert_try_def m1 d_def [symmetric] n_def [symmetric]
        using sc3 by (simp add: m2 m3 zf e3 no_locals_def)
    next
      case r3: (Inr u)
      show ?thesis
      proof (cases "TarFile_fileobj e n")
        case (Inl x)
        then show ?thesis
          unfolding convert_try_def m1 d_def [symmetric] n_def [symmetric]
          using sc3 by (simp add: m2 m3 zf e3 r3 no_locals_def)
      next
        case t0: (Inr tar0)
        obtain ra tar1 where a: "TarFile_add e tar0 d [] fs3 = (ra, tar1)"
          by (cases "TarFile_add e tar0 d [] fs3")
        show ?thesis
        proof (cases ra)
          case (Inl x)
          then show ?thesis
            unfolding convert_try_def m1 d_def [symmetric] n_def [symmetric]
            using sc3 by (simp add: m2 m3 zf e3 r3 t0 a no_locals_def)
        next
          case ra: (Inr u')
          obtain rc tc fs4 where c: "TarFile_close_call e tar1 fs3 = (rc, tc, fs4)"
            by (cases "TarFile_close_call e tar1 fs3")
          note sc4 = s4 [OF sc3 p [OF t0 a] c]
          show ?thesis
          proof (cases rc)
            case (Inl x)
            then show ?thesis
              unfolding convert_try_def m1 d_def [symmetric] n_def [symmetric]
              using sc4 by (simp add: m2 m3 zf e3 r3 t0 a ra c no_locals_def)
          next
            case rc: (Inr u'')
            obtain r5 fs5 where i: "TarFile_init fs4 n mode = (r5, fs5)"
              by (cases "TarFile_init fs4 n mode")
            show ?thesis
              unfolding convert_try_def m1 d_def [symmetric] n_def [symmetric]
              using s5 [OF sc4 i] by (simp add: m2 m3 zf e3 r3 t0 a ra c rc i no_locals_def)
          qed
        qed
      qed
    qed
  qed
qed

lemma convert_acquired:
  assumes "fault e Mkdtemp = None" and "fault e Mkstemp = None" and "fault e Fdopen = None"
    and "fs (new_dir e) = None" and "fs (new_file e) = None" and "new_dir e \<noteq> new_file e"
  shows "convert e fs name mode = (snd (snd (convert_try e fs name mode)), fs)"
proof -
  obtain fs1 r where t: "convert_try e fs name mode =
           (\<lparr>tmp_dir = Some (new_dir e), tmp_name = Some (new_file e), tmp_fo = Some (new_file e)\<rparr>,
            fs1, r)" and s: "scratch fs (new_dir e) (new_file e) fs1"
    using convert_try_acquired [OF assms] by blast
  show ?thesis
    using finally_scratch [OF s assms(6,4,5)] by (simp add: convert_def t)
qed

lemma convert_mkstemp_fails:
  assumes "fault e Mkdtemp = None" and "fs (new_dir e) = None" and "fault e Mkstemp = Some x"
  shows "convert_try e fs name mode =
           (\<lparr>tmp_dir = Some (new_dir e), tmp_name = None, tmp_fo = None\<rparr>,
            fs(new_dir e := Some (Dir [])), Inl x)"
    and "convert e fs name mode = (Inl UnboundLocalError, fs(new_dir e := Some (Dir [])))"
  using assms
  by (simp_all add: convert_def convert_try_def mkdtemp_def mkstemp_def no_locals_def
      convert_finally_def)

text \<open>
  Claim C2, at the input where the code breaks it. The three scratch resources are
  acquired inside the \<^verbatim>\<open>try\<close> block, and the \<^verbatim>\<open>finally\<close> clause reads \<^verbatim>\<open>tmp_fo\<close>
  first. When \<^verbatim>\<open>tempfile.mkstemp()\<close> raises after \<^verbatim>\<open>tempfile.mkdtemp()\<close> has made the
  directory, \<^verbatim>\<open>tmp_fo\<close> is unbound: the clause raises \<^verbatim>\<open>UnboundLocalError\<close>, which
  replaces the error of \<^verbatim>\<open>mkstemp\<close>, and \<^verbatim>\<open>shutil.rmtree(tmp_dir)\<close> never runs, so the
  scratch directory stays. (\<open>convert_acquired\<close> above is the other half: once
  the three acquisitions have succeeded, whatever happens later, the file system is
  restored and the outcome of the block stands.)
\<close>

theorem init_zip_mkstemp_fails:
  assumes "startswith mode ''r''" and "fs name = Some (File (Zip zs))"
    and "fault e Mkdtemp = None" and "fs (new_dir e) = None" and "fault e Mkstemp = Some x"
  shows "Tarball_init e fs name mode mtime =
           (Inl UnboundLocalError, fs(new_dir e := Some (Dir [])))"
  using assms(1,2) convert_mkstemp_fails(2) [where fs = fs and e = e, OF assms(3-5)]
  by (simp add: Tarball_init_def is_tarfile_def is_zipfile_def)

text \<open>
  The theorem at \<^verbatim>\<open>Tarball('map.zip')\<close> when \<^verbatim>\<open>mkstemp\<close> fails for lack of space: the
  caller sees \<^verbatim>\<open>UnboundLocalError\<close>, and \<^verbatim>\<open>/tmp/tmpd\<close>, which did not exist, is left
  behind.
\<close>

theorem init_zip_mkstemp_fails_witness:
  "fault env_mkstemp_fails Mkstemp = Some (OSError ''No space left on device'')
   \<and> fst (Tarball_init env_mkstemp_fails fs0 ''map.zip'' ''r'' None) = Inl UnboundLocalError
   \<and> fs0 ''/tmp/tmpd'' = None
   \<and> snd (Tarball_init env_mkstemp_fails fs0 ''map.zip'' ''r'' None) ''/tmp/tmpd'' = Some (Dir [])"
proof -
  have 1: "startswith ''r'' ''r''"
    by (simp add: startswith_def)
  have 2: "fs0 ''map.zip'' = Some (File (Zip [(''a'', ''xx'')]))"
    by (simp add: fs0_def)
  have 3: "fault env_mkstemp_fails Mkdtemp = None"
    and 4: "fs0 (new_dir env_mkstemp_fails) = None"
    and 5: "fault env_mkstemp_fails Mkstemp = Some (OSError ''No space left on device'')"
    and 6: "new_dir env_mkstemp_fails = ''/tmp/tmpd''"
    by (simp_all add: env_mkstemp_fails_def env0_def fs0_def)
  show ?thesis
    using init_zip_mkstemp_fails [where fs = fs0 and name = "''map.zip''" and mode = "''r''"
        and e = env_mkstemp_fails and mtime = None, OF 1 2 3 4 5] 4 5 6
    by simp
qed

section \<open>Operations on a closed handle\<close>

text \<open>
  Claim C3, as the code has it. The module has no check of its own for a closed handle
  and no exception class for it; what fails after \<^verbatim>\<open>close()\<close> is the library's
  \<^verbatim>\<open>_check\<close>, with \<^verbatim>\<open>IOError("TarFile is closed")\<close>. For a name that encodes,
  \<^verbatim>\<open>getnames\<close>, \<^verbatim>\<open>read\<close> and \<^verbatim>\<open>read_pixbuf\<close> raise it, and so does \<^verbatim>\<open>write\<close> of a byte
  string or of a pixbuf the encoder accepts. \<^verbatim>\<open>write\<close> of a value of any other type
  raises \<^verbatim>\<open>BadDataTypeError\<close>, because the type is tested before the archive is
  touched. In each case the handle stays as \<^verbatim>\<open>close()\<close> left it.
\<close>

theorem after_close:
  fixes save :: "'p \<Rightarrow> error + bytes" and load :: "bytes \<Rightarrow> error + 'q"
  assumes "encode_utf8 arcname = Inr n" and "h' = fst (close h fs)"
  shows "getnames h' = Inl (IOError ''TarFile is closed'')
    \<and> read h' arcname = Inl (IOError ''TarFile is closed'')
    \<and> read_pixbuf load h' arcname = Inl (IOError ''TarFile is closed'')
    \<and> Tarball_write save h' arcname (PyString (Str s)) m = (Inl (IOError ''TarFile is closed''), h')
    \<and> (save p = Inr buf \<longrightarrow>
         Tarball_write save h' arcname (Pixbuf p) m = (Inl (IOError ''TarFile is closed''), h'))
    \<and> Tarball_write save h' arcname (PyString (Unicode u)) m = (Inl BadDataTypeError, h')
    \<and> Tarball_write save h' arcname (PyInt i) m = (Inl BadDataTypeError, h')
    \<and> Tarball_write save h' arcname PyNone m = (Inl BadDataTypeError, h')"
proof -
  have c: "tf_closed (self_tar h')"
    by (simp add: assms(2) closed_after_close)
  have g: "getnames h' = Inl (IOError ''TarFile is closed'')"
    using c by (simp add: getnames_def TarFile_getnames_def getmembers_def check_closed)
  have r: "read h' arcname = Inl (IOError ''TarFile is closed'')"
    using c assms(1) by (simp add: read_def extractfile_def check_closed)
  have rp: "read_pixbuf load h' arcname = Inl (IOError ''TarFile is closed'')"
    using r by (simp add: read_pixbuf_def)
  have ws: "Tarball_write save h' arcname (PyString (Str s)) m =
              (Inl (IOError ''TarFile is closed''), h')"
    using c assms(1) by (simp add: Tarball_write_def write_str_def addfile_closed)
  have wp: "Tarball_write save h' arcname (Pixbuf p) m =
              (Inl (IOError ''TarFile is closed''), h')"
    if "save p = Inr buf"
    using c assms(1) that by (simp add: Tarball_write_def write_pixbuf_def addfile_closed)
  have wo: "Tarball_write save h' arcname (PyString (Unicode u)) m = (Inl BadDataTypeError, h')"
    "Tarball_write save h' arcname (PyInt i) m = (Inl BadDataTypeError, h')"
    "Tarball_write save h' arcname PyNone m = (Inl BadDataTypeError, h')"
    using assms(1) by (simp_all add: Tarball_write_def)
  show ?thesis
    using g r rp ws wp wo by simp
qed

text \<open>The theorem at a new archive closed at once and the name \<^verbatim>\<open>'a'\<close>.\<close>

theorem after_close_witness:
  "getnames (fst (close fresh_handle fs0)) = Inl (IOError ''TarFile is closed'')
    \<and> read (fst (close fresh_handle fs0)) (Str ''a'') = Inl (IOError ''TarFile is closed'')
    \<and> read_pixbuf load0 (fst (close fresh_handle fs0)) (Str ''a'')
         = Inl (IOError ''TarFile is closed'')
    \<and> Tarball_write save0 (fst (close fresh_handle fs0)) (Str ''a'') (PyString (Str ''xx'')) 420
         = (Inl (IOError ''TarFile is closed''), fst (close fresh_handle fs0))
    \<and> Tarball_write save0 (fst (close fresh_handle fs0)) (Str ''a'') (Pixbuf ()) 420
         = (Inl (IOError ''TarFile is closed''), fst (close fresh_handle fs0))
    \<and> Tarball_write save0 (fst (close fresh_handle fs0)) (Str ''a'') (PyInt 5) 420
         = (Inl BadDataTypeError, fst (close fresh_handle fs0))"
proof -
  have e: "encode_utf8 (Str ''a'') = Inr ''a''"
    by (simp add: is_ascii_def)
  have s: "save0 () = Inr ''PNG''"
    by (simp add: save0_def)
  show ?thesis
    using after_close [OF e refl, where save = save0 and load = load0 and h = fresh_handle
        and fs = fs0 and s = "''xx''" and m = 420 and p = "()" and buf = "''PNG''" and i = 5] s
    by simp
qed

text \<open>
  Claim C3 as the specification words it fails: after \<^verbatim>\<open>close()\<close>, \<^verbatim>\<open>write('a', 5)\<close>
  raises \<^verbatim>\<open>BadDataTypeError\<close>, not the error of a closed handle.
\<close>

theorem write_after_close_counterexample:
  "Tarball_write save0 (fst (close fresh_handle fs0)) (Str ''a'') (PyInt 5) 420
     = (Inl BadDataTypeError, fst (close fresh_handle fs0))
   \<and> fst (Tarball_write save0 (fst (close fresh_handle fs0)) (Str ''a'') (PyInt 5) 420)
     \<noteq> Inl (IOError ''TarFile is closed'')"
  by (simp add: Tarball_write_def is_ascii_def)

section \<open>Writing strings\<close>

text \<open>
  Claim C4, as the code has it. \<^verbatim>\<open>isinstance(data, str)\<close> accepts byte strings only.
  On every open handle in mode \<^verbatim>\<open>w\<close> or \<^verbatim>\<open>a\<close>, for every name that encodes and every
  byte string, \<^verbatim>\<open>write\<close> returns and appends one member: a regular file under the
  encoded name with the given permissions, the handle's timestamp, the length of the
  string as its size and the string as its payload. A text string fails with
  \<^verbatim>\<open>BadDataTypeError\<close> and leaves the handle as it was.
\<close>

theorem write_byte_string:
  assumes "\<not> tf_closed (self_tar h)"
    and "tf_mode (self_tar h) = CHR ''w'' \<or> tf_mode (self_tar h) = CHR ''a''"
    and "encode_utf8 arcname = Inr n"
  shows "Tarball_write save h arcname (PyString (Str s)) m =
           (Inr (), h\<lparr>self_tar := (self_tar h)\<lparr>tf_members := tf_members (self_tar h) @
              [(\<lparr>info_name = n, info_mode = m, info_mtime = self_mtime h,
                 info_size = length s, info_type = REGTYPE\<rparr>, s)]\<rparr>\<rparr>)
       \<and> Tarball_write save h arcname (PyString (Unicode u)) m = (Inl BadDataTypeError, h)"
  using write_str_open [OF assms, of save s m] assms(3)
  by (simp add: Tarball_write_def)

text \<open>The theorem at a new archive, the name \<^verbatim>\<open>'a'\<close> and the strings \<^verbatim>\<open>'xx'\<close>, \<^verbatim>\<open>u'xx'\<close>.\<close>

theorem write_byte_string_witness:
  "Tarball_write save0 fresh_handle (Str ''a'') (PyString (Str ''xx'')) 420 =
     (Inr (), fresh_handle\<lparr>self_tar := (self_tar fresh_handle)\<lparr>tf_members :=
        [(\<lparr>info_name = ''a'', info_mode = 420, info_mtime = 1700000000,
           info_size = 2, info_type = REGTYPE\<rparr>, ''xx'')]\<rparr>\<rparr>)
   \<and> Tarball_write save0 fresh_handle (Str ''a'') (PyString (Unicode [120, 120])) 420
        = (Inl BadDataTypeError, fresh_handle)"
proof -
  have 1: "\<not> tf_closed (self_tar fresh_handle)"
    and 2: "tf_mode (self_tar fresh_handle) = CHR ''w'' \<or> tf_mode (self_tar fresh_handle) = CHR ''a''"
    by (simp_all add: fresh_handle_def)
  have 3: "encode_utf8 (Str ''a'') = Inr ''a''"
    by (simp add: is_ascii_def)
  show ?thesis
    using write_byte_string [OF 1 2 3, of save0 "''xx''" 420 "[120, 120]"]
    by (simp add: fresh_handle_def)
qed

text \<open>
  Claim C4 as the specification words it fails: on an open handle in mode \<^verbatim>\<open>w\<close>,
  \<^verbatim>\<open>write('a', u'hi')\<close> raises \<^verbatim>\<open>BadDataTypeError\<close> and adds nothing.
\<close>

theorem write_text_counterexample:
  "\<not> tf_closed (self_tar fresh_handle) \<and> tf_mode (self_tar fresh_handle) = CHR ''w''
   \<and> Tarball_write save0 fresh_handle (Str ''a'') (PyString (Unicode [104, 105])) 420
        = (Inl BadDataTypeError, fresh_handle)"
  by (simp add: Tarball_write_def is_ascii_def fresh_handle_def)

section \<open>Writing a value of an unsupported type\<close>




section \<open>Writing, closing, reopening, reading\<close>

text \<open>
  Claim C6. On every open handle in mode \<^verbatim>\<open>w\<close> or \<^verbatim>\<open>a\<close>, for every byte string \<open>s\<close>
  and every name that encodes (a text string, or a byte string of ASCII characters, the
  names \<^verbatim>\<open>arcname.encode('utf8')\<close> accepts) and has no NUL character:
  \<^verbatim>\<open>write(n, s)\<close> returns, \<^verbatim>\<open>close()\<close> stores the archive, \<^verbatim>\<open>Tarball(path)\<close> on the same path
  opens it, and \<^verbatim>\<open>read(n)\<close> on the new handle returns exactly \<open>s\<close>, whatever was written
  to the archive before.
\<close>

theorem round_trip:
  assumes "\<not> tf_closed (self_tar h)"
    and "tf_mode (self_tar h) = CHR ''w'' \<or> tf_mode (self_tar h) = CHR ''a''"
    and "encode_utf8 n = Inr b" and "CHR 0x00 \<notin> set b"
  shows "\<exists>h1 h2 fs2 h3.
           Tarball_write save h n (PyString (Str s)) m = (Inr (), h1)
         \<and> close h1 fs = (h2, fs2)
         \<and> Tarball_init e fs2 (tf_path (self_tar h)) ''r'' mtime = (Inr h3, fs2)
         \<and> read h3 n = Inr (Some s)"
proof -
  define info where "info = \<lparr>info_name = b, info_mode = m, info_mtime = self_mtime h,
                 info_size = length s, info_type = REGTYPE\<rparr>"
  define h1 where "h1 = h\<lparr>self_tar := (self_tar h)\<lparr>tf_members := tf_members (self_tar h) @ [(info, s)]\<rparr>\<rparr>"
  define fs2 where "fs2 = fs(tf_path (self_tar h) := Some (File (Tar (map on_disk (tf_members (self_tar h1))))))"
  define h3 where "h3 = \<lparr>self_tar = \<lparr>tf_path = tf_path (self_tar h), tf_mode = CHR ''r'', tf_closed = False,
                              tf_members = map on_disk (tf_members (self_tar h1))\<rparr>,
                 self_mtime = (case mtime of None \<Rightarrow> now e
                               | Some m \<Rightarrow> if m \<noteq> 0 then m else now e)\<rparr>"
  have w: "Tarball_write save h n (PyString (Str s)) m = (Inr (), h1)"
    using write_str_open [OF assms(1-3)] by (simp add: h1_def info_def)
  have d: "on_disk (info, s) = (info, s)"
    using assms(4) by (simp add: on_disk_file info_def)
  have o: "\<not> tf_closed (self_tar h1)"
    "tf_mode (self_tar h1) = CHR ''w'' \<or> tf_mode (self_tar h1) = CHR ''a''"
    using assms(1,2) by (simp_all add: h1_def)
  have c: "close h1 fs = (h1\<lparr>self_tar := (self_tar h1)\<lparr>tf_closed := True\<rparr>\<rparr>, fs2)"
    using close_open_write [OF o] by (simp add: fs2_def h1_def)
  have f: "fs2 (tf_path (self_tar h)) = Some (File (Tar (map on_disk (tf_members (self_tar h1)))))"
    by (simp add: fs2_def)
  have i: "Tarball_init e fs2 (tf_path (self_tar h)) ''r'' mtime = (Inr h3, fs2)"
    using init_read_tar [where fs = fs2 and name = "tf_path (self_tar h)", OF f]
    by (simp add: h3_def)
  have r: "read h3 n = Inr (Some s)"
    by (rule read_last_written [OF assms(3), where ms = "map on_disk (tf_members (self_tar h))" and info = info])
      (simp_all add: h3_def h1_def d, simp_all add: info_def)
  show ?thesis
    using w c i r by blast
qed

text \<open>
  The theorem at a new archive \<^verbatim>\<open>out.tar\<close>, the name \<^verbatim>\<open>u'\xe9'\<close> and the string
  \<^verbatim>\<open>'xx'\<close>.
\<close>

theorem round_trip_witness:
  "\<exists>h1 h2 fs2 h3.
      Tarball_write save0 fresh_handle (Unicode [233]) (PyString (Str ''xx'')) 420 = (Inr (), h1)
    \<and> close h1 fs0 = (h2, fs2)
    \<and> Tarball_init env0 fs2 ''out.tar'' ''r'' None = (Inr h3, fs2)
    \<and> read h3 (Unicode [233]) = Inr (Some ''xx'')"
proof -
  have 1: "\<not> tf_closed (self_tar fresh_handle)"
    and 2: "tf_mode (self_tar fresh_handle) = CHR ''w'' \<or> tf_mode (self_tar fresh_handle) = CHR ''a''"
    and p: "tf_path (self_tar fresh_handle) = ''out.tar''"
    by (simp_all add: fresh_handle_def)
  have 3: "encode_utf8 (Unicode [233]) = Inr [CHR 0xC3, CHR 0xA9]"
    by code_simp
  have 4: "CHR 0x00 \<notin> set [CHR 0xC3, CHR 0xA9]"
    by simp
  show ?thesis
    using round_trip [OF 1 2 3 4, of save0 "''xx''" 420 fs0 env0 None] p by simp
qed

text \<open>
  Claim C6 for every name fails at two kinds of names. With the byte string \<^verbatim>\<open>'\xff'\<close> as
  the name, \<^verbatim>\<open>write\<close> raises \<^verbatim>\<open>UnicodeDecodeError\<close> and stores nothing. With the text
  string \<^verbatim>\<open>u'a\x00b'\<close> as the name, \<^verbatim>\<open>write\<close> and \<^verbatim>\<open>close\<close> return, the member of the
  reopened archive is named \<^verbatim>\<open>a\<close>, and \<^verbatim>\<open>read(u'a\x00b')\<close> raises \<^verbatim>\<open>KeyError\<close>.
\<close>

theorem round_trip_counterexample:
  "Tarball_write save0 fresh_handle (Str [CHR 0xFF]) (PyString (Str ''xx'')) 420
     = (Inl UnicodeDecodeError, fresh_handle)
   \<and> fst (Tarball_write save0 fresh_handle (Unicode [97, 0, 98]) (PyString (Str ''xx'')) 420)
       = Inr ()
   \<and> fst (Tarball_init env0
            (snd (close
               (snd (Tarball_write save0 fresh_handle (Unicode [97, 0, 98])
                  (PyString (Str ''xx'')) 420))
               fs0))
            ''out.tar'' ''r'' None)
       = Inr reopened_handle
   \<and> getnames reopened_handle = Inr [''a'']
   \<and> read reopened_handle (Unicode [97, 0, 98]) = Inl KeyError"
proof -
  have e: "encode_utf8 (Unicode [97, 0, 98]) = Inr [CHR ''a'', CHR 0x00, CHR ''b'']"
    by code_simp
  have x: "encode_utf8 (Str [CHR 0xFF]) = Inl UnicodeDecodeError"
    by code_simp
  have 1: "Tarball_write save0 fresh_handle (Str [CHR 0xFF]) (PyString (Str ''xx'')) 420
     = (Inl UnicodeDecodeError, fresh_handle)"
    using x by (simp add: Tarball_write_def write_str_def)
  define h1 where "h1 = fresh_handle\<lparr>self_tar := (self_tar fresh_handle)\<lparr>tf_members :=
      [(\<lparr>info_name = [CHR ''a'', CHR 0x00, CHR ''b''], info_mode = 420,
         info_mtime = 1700000000, info_size = 2, info_type = REGTYPE\<rparr>, ''xx'')]\<rparr>\<rparr>"
  have o: "\<not> tf_closed (self_tar fresh_handle)"
    "tf_mode (self_tar fresh_handle) = CHR ''w'' \<or> tf_mode (self_tar fresh_handle) = CHR ''a''"
    by (simp_all add: fresh_handle_def)
  have w: "Tarball_write save0 fresh_handle (Unicode [97, 0, 98]) (PyString (Str ''xx'')) 420
             = (Inr (), h1)"
    using write_str_open [OF o e, of save0 "''xx''" 420] by (simp add: h1_def fresh_handle_def)
  define fs2 where "fs2 = fs0(''out.tar'' := Some (File (Tar (tf_members (self_tar reopened_handle)))))"
  have c: "snd (close h1 fs0) = fs2"
    by (simp add: close_def TarFile_close_def h1_def fresh_handle_def fs2_def reopened_handle_def
        on_disk_def nts_def)
  have f: "fs2 ''out.tar'' = Some (File (Tar (tf_members (self_tar reopened_handle))))"
    by (simp add: fs2_def)
  have i: "Tarball_init env0 fs2 ''out.tar'' ''r'' None = (Inr reopened_handle, fs2)"
    using init_read_tar [where fs = fs2 and name = "''out.tar''", OF f, of env0 None]
    by (simp add: reopened_handle_def env0_def)
  have r: "read reopened_handle (Unicode [97, 0, 98]) = Inl KeyError"
    using e
    by (simp add: read_def extractfile_def getmember_def getmembers_def check_def
        reopened_handle_def)
  have g: "getnames reopened_handle = Inr [''a'']"
    by (simp add: getnames_def TarFile_getnames_def getmembers_def check_def reopened_handle_def)
  show ?thesis
    using 1 w c i r g by simp
qed

section \<open>Opening a file that is no archive\<close>

lemma convert_try_broken:
  assumes "fault e Mkdtemp = None" and "fault e Mkstemp = None" and "fault e Fdopen = None"
    and "fault e ZipFile_call = None"
    and "fs (new_dir e) = None" and "fs (new_file e) = None" and "new_dir e \<noteq> new_file e"
    and "fs name = Some (File (BrokenZip b))"
  shows "snd (snd (convert_try e fs name mode)) = Inl BadZipfile"
proof -
  have n: "name \<noteq> new_dir e" "name \<noteq> new_file e"
    using assms(5,6,8) by auto
  show ?thesis
    using assms n
    by (simp add: convert_try_def mkdtemp_def mkstemp_def fdopen_def ZipFile_def no_locals_def)
qed

text \<open>
  Claim C7, as the code has it. Line 81 raises \<^verbatim>\<open>tarfile.ReadError\<close> when both tests of
  lines 75 and 80 answer no, and nothing in \<^verbatim>\<open>__init__\<close> catches what the libraries
  raise. When the mode starts with \<^verbatim>\<open>r\<close>:
  \<^item> for a file in which the libraries find neither a tar archive nor the end record of a
    zip archive, \<^verbatim>\<open>Tarball(path, mode)\<close> raises \<^verbatim>\<open>tarfile.ReadError\<close>, at once and from
    line 81;
  \<^item> for a path that does not exist and for a directory, \<^verbatim>\<open>tarfile.is_tarfile\<close> raises
    \<^verbatim>\<open>IOError\<close>;
  \<^item> for a compressed tar archive \<^verbatim>\<open>tarfile.TarFile\<close> of line 76 raises
    \<^verbatim>\<open>tarfile.ReadError\<close> in mode \<^verbatim>\<open>r\<close> and \<^verbatim>\<open>ValueError\<close> in every longer mode;
  \<^item> for a file with a zip end record that is no zip archive, \<^verbatim>\<open>zipfile.ZipFile\<close> of line
    88 raises \<^verbatim>\<open>BadZipfile\<close>, after the scratch directory and the scratch file were made
    (when making them does not fail), and the \<^verbatim>\<open>finally\<close> clause removes both.

  In each case the file system afterwards is the file system before: no scratch
  directory and no scratch file remain.
\<close>

theorem init_neither_format:
  assumes "startswith mode ''r''"
  shows "(fs name = Some (File (Raw b)) \<longrightarrow>
            Tarball_init e fs name mode mtime = (Inl ReadError, fs))
       \<and> (fs name = None \<longrightarrow>
            Tarball_init e fs name mode mtime = (Inl (IOError ''No such file or directory''), fs))
       \<and> (fs name = Some (Dir es) \<longrightarrow>
            Tarball_init e fs name mode mtime = (Inl (IOError ''Is a directory''), fs))
       \<and> (fs name = Some (File (Compressed ms)) \<longrightarrow>
            Tarball_init e fs name mode mtime
              = (Inl (if mode = ''r'' then ReadError else ValueError), fs))
       \<and> (fs name = Some (File (BrokenZip b))
            \<and> fault e Mkdtemp = None \<and> fault e Mkstemp = None \<and> fault e Fdopen = None
            \<and> fault e ZipFile_call = None
            \<and> fs (new_dir e) = None \<and> fs (new_file e) = None \<and> new_dir e \<noteq> new_file e \<longrightarrow>
            Tarball_init e fs name mode mtime = (Inl BadZipfile, fs))"
proof -
  have raw: "Tarball_init e fs name mode mtime = (Inl ReadError, fs)"
    if "fs name = Some (File (Raw b))"
    using assms that by (simp add: Tarball_init_def is_tarfile_def is_zipfile_def)
  have missing: "Tarball_init e fs name mode mtime
      = (Inl (IOError ''No such file or directory''), fs)"
    if "fs name = None"
    using assms that by (simp add: Tarball_init_def is_tarfile_def)
  have dir: "Tarball_init e fs name mode mtime = (Inl (IOError ''Is a directory''), fs)"
    if "fs name = Some (Dir es)"
    using assms that by (simp add: Tarball_init_def is_tarfile_def)
  have m: "mode \<noteq> []" "mode \<noteq> ''w''" "mode \<noteq> ''a''"
    using assms by (auto simp add: startswith_def)
  have packed: "Tarball_init e fs name mode mtime
      = (Inl (if mode = ''r'' then ReadError else ValueError), fs)"
    if "fs name = Some (File (Compressed ms))"
    using assms that m by (simp add: Tarball_init_def is_tarfile_def TarFile_init_def)
  have broken: "Tarball_init e fs name mode mtime = (Inl BadZipfile, fs)"
    if h: "fs name = Some (File (BrokenZip b))"
      "fault e Mkdtemp = None" "fault e Mkstemp = None" "fault e Fdopen = None"
      "fault e ZipFile_call = None"
      "fs (new_dir e) = None" "fs (new_file e) = None" "new_dir e \<noteq> new_file e"
  proof -
    have c: "convert e fs name mode = (Inl BadZipfile, fs)"
      using convert_acquired [where fs = fs and e = e, OF h(2-4,6-8), of name mode]
        convert_try_broken [where fs = fs and e = e, OF h(2-8) h(1), of mode]
      by simp
    show ?thesis
      using assms h(1) c by (simp add: Tarball_init_def is_tarfile_def is_zipfile_def)
  qed
  show ?thesis
    using raw missing dir packed broken by blast
qed

text \<open>
  The theorem at \<^verbatim>\<open>Tarball('junk.bin')\<close>, \<^verbatim>\<open>Tarball('map.tar.gz')\<close>, \<^verbatim>\<open>Tarball('/tmp')\<close> on
  a file system that has this directory, and \<^verbatim>\<open>Tarball('bad.zip')\<close>.
\<close>

theorem init_neither_format_witness:
  "Tarball_init env0 fs0 ''junk.bin'' ''r'' None = (Inl ReadError, fs0)
   \<and> Tarball_init env0 fs0 ''map.tar.gz'' ''r'' None = (Inl ReadError, fs0)
   \<and> Tarball_init env0 (fs0(''/tmp'' := Some (Dir []))) ''/tmp'' ''r'' None
       = (Inl (IOError ''Is a directory''), fs0(''/tmp'' := Some (Dir [])))
   \<and> Tarball_init env0 fs0 ''bad.zip'' ''r'' None = (Inl BadZipfile, fs0)"
proof -
  have 1: "startswith ''r'' ''r''"
    by (simp add: startswith_def)
  have 2: "fs0 ''junk.bin'' = Some (File (Raw ''hello''))"
    by (simp add: fs0_def)
  have 3: "fs0 ''map.tar.gz''
      = Some (File (Compressed [((TarInfo ''a'')\<lparr>info_size := 2\<rparr>, ''xx'')]))"
    by (simp add: fs0_def)
  have 4: "(fs0(''/tmp'' := Some (Dir []))) ''/tmp'' = Some (Dir [])"
    by simp
  have 5: "fs0 ''bad.zip'' = Some (File (BrokenZip ''PK''))"
    "fault env0 Mkdtemp = None" "fault env0 Mkstemp = None" "fault env0 Fdopen = None"
    "fault env0 ZipFile_call = None"
    "fs0 (new_dir env0) = None" "fs0 (new_file env0) = None" "new_dir env0 \<noteq> new_file env0"
    by (simp_all add: env0_def fs0_def)
  have a: "Tarball_init env0 fs0 ''junk.bin'' ''r'' None = (Inl ReadError, fs0)"
    using init_neither_format [where fs = fs0 and name = "''junk.bin''" and mode = "''r''"
        and b = "''hello''" and e = env0 and mtime = None, OF 1] 2
    by simp
  have b: "Tarball_init env0 fs0 ''map.tar.gz'' ''r'' None = (Inl ReadError, fs0)"
    using init_neither_format [where fs = fs0 and name = "''map.tar.gz''" and mode = "''r''"
        and ms = "[((TarInfo ''a'')\<lparr>info_size := 2\<rparr>, ''xx'')]" and e = env0 and mtime = None,
        OF 1] 3
    by simp
  have c: "Tarball_init env0 (fs0(''/tmp'' := Some (Dir []))) ''/tmp'' ''r'' None
       = (Inl (IOError ''Is a directory''), fs0(''/tmp'' := Some (Dir [])))"
    using init_neither_format [where fs = "fs0(''/tmp'' := Some (Dir []))" and name = "''/tmp''"
        and mode = "''r''" and es = "[]" and e = env0 and mtime = None, OF 1] 4
    by simp
  have d: "Tarball_init env0 fs0 ''bad.zip'' ''r'' None = (Inl BadZipfile, fs0)"
    using init_neither_format [where fs = fs0 and name = "''bad.zip''" and mode = "''r''"
        and b = "''PK''" and e = env0 and mtime = None, OF 1] 5
    by simp
  show ?thesis
    using a b c d by simp
qed

text \<open>
  Claim C7 as the specification words it fails at three paths that are neither a tar
  nor a zip archive: \<^verbatim>\<open>Tarball('missing')\<close> on a path that does not exist raises
  \<^verbatim>\<open>IOError\<close>, \<^verbatim>\<open>Tarball('bad.zip')\<close> raises \<^verbatim>\<open>BadZipfile\<close>, and
  \<^verbatim>\<open>Tarball('map.tar.gz', 'r:gz')\<close> raises \<^verbatim>\<open>ValueError\<close>.
\<close>

theorem init_neither_format_counterexample:
  "Tarball_init env0 fs0 ''missing'' ''r'' None
     = (Inl (IOError ''No such file or directory''), fs0)
   \<and> Tarball_init env0 fs0 ''bad.zip'' ''r'' None = (Inl BadZipfile, fs0)
   \<and> Tarball_init env0 fs0 ''map.tar.gz'' ''r:gz'' None = (Inl ValueError, fs0)"
proof -
  have a: "Tarball_init env0 fs0 ''missing'' ''r'' None
     = (Inl (IOError ''No such file or directory''), fs0)"
    by (simp add: Tarball_init_def startswith_def is_tarfile_def fs0_def)
  have f: "fault env0 Mkdtemp = None" "fault env0 Mkstemp = None" "fault env0 Fdopen = None"
    "fault env0 ZipFile_call = None"
    "fs0 (new_dir env0) = None" "fs0 (new_file env0) = None" "new_dir env0 \<noteq> new_file env0"
    "fs0 ''bad.zip'' = Some (File (BrokenZip ''PK''))"
    by (simp_all add: env0_def fs0_def)
  have c: "convert env0 fs0 ''bad.zip'' ''r'' = (Inl BadZipfile, fs0)"
    using convert_acquired [where fs = fs0 and e = env0, OF f(1-3,5-7), of "''bad.zip''" "''r''"]
      convert_try_broken [where fs = fs0 and e = env0, OF f, of "''r''"]
    by simp
  have b: "Tarball_init env0 fs0 ''bad.zip'' ''r'' None = (Inl BadZipfile, fs0)"
    using c f(8) by (simp add: Tarball_init_def startswith_def is_tarfile_def is_zipfile_def)
  have g: "Tarball_init env0 fs0 ''map.tar.gz'' ''r:gz'' None = (Inl ValueError, fs0)"
    by (simp add: Tarball_init_def startswith_def is_tarfile_def fs0_def TarFile_init_def)
  show ?thesis
    using a b g by simp
qed

section \<open>Names in creation order\<close>

lemma write_supported_open:
  assumes "\<not> tf_closed (self_tar h)"
    and "tf_mode (self_tar h) = CHR ''w'' \<or> tf_mode (self_tar h) = CHR ''a''"
    and "encode_utf8 arcname = Inr n"
    and "(\<exists>s. data = PyString (Str s)) \<or> (\<exists>p buf. data = Pixbuf p \<and> save p = Inr buf)"
  shows "\<exists>h1. Tarball_write save h arcname data m = (Inr (), h1)
            \<and> \<not> tf_closed (self_tar h1) \<and> tf_mode (self_tar h1) = tf_mode (self_tar h)
            \<and> map (\<lambda>m. info_name (fst m)) (tf_members (self_tar h1))
                = map (\<lambda>m. info_name (fst m)) (tf_members (self_tar h)) @ [n]"
  using assms(4)
proof (elim disjE exE conjE)
  fix s assume "data = PyString (Str s)"
  then show ?thesis
    using write_str_open [OF assms(1-3), of save s m] assms(1) by simp
next
  fix p buf assume "data = Pixbuf p" "save p = Inr buf"
  then show ?thesis
    using write_pixbuf_open [OF assms(1-3), of save p buf m] assms(1) by simp
qed

lemma supported_cases:
  "supported save data \<Longrightarrow>
   (\<exists>s. data = PyString (Str s)) \<or> (\<exists>p buf. data = Pixbuf p \<and> save p = Inr buf)"
  by (auto simp add: supported_def split: pyobj.splits pystr.splits sum.splits)

lemma write_all_names:
  assumes "list_all2 (\<lambda>w n. encode_utf8 (fst w) = Inr n \<and> supported save (fst (snd w))) ws ns"
    and "\<not> tf_closed (self_tar h)"
    and "tf_mode (self_tar h) = CHR ''w'' \<or> tf_mode (self_tar h) = CHR ''a''"
  shows "\<exists>h1. write_all save h ws = (Inr (), h1)
            \<and> getnames h1 = Inr (map (\<lambda>m. info_name (fst m)) (tf_members (self_tar h)) @ ns)"
  using assms
proof (induction ws ns arbitrary: h rule: list_all2_induct)
  case Nil
  then show ?case by (simp add: getnames_open)
next
  case (Cons w ws n ns)
  obtain h1 where h1: "Tarball_write save h (fst w) (fst (snd w)) (snd (snd w)) = (Inr (), h1)"
    "\<not> tf_closed (self_tar h1)" "tf_mode (self_tar h1) = tf_mode (self_tar h)"
    "map (\<lambda>m. info_name (fst m)) (tf_members (self_tar h1))
       = map (\<lambda>m. info_name (fst m)) (tf_members (self_tar h)) @ [n]"
    using write_supported_open [OF Cons.prems(1,2), of "fst w" n "fst (snd w)" save "snd (snd w)"]
      Cons.hyps(1) supported_cases by blast
  have "tf_mode (self_tar h1) = CHR ''w'' \<or> tf_mode (self_tar h1) = CHR ''a''"
    using h1(3) Cons.prems(2) by simp
  from Cons.IH [OF h1(2) this] obtain h2 where
    "write_all save h1 ws = (Inr (), h2)"
    "getnames h2 = Inr (map (\<lambda>m. info_name (fst m)) (tf_members (self_tar h1)) @ ns)"
    by blast
  then show ?case
    using h1(1,4) by simp
qed

text \<open>
  Claim C8. On a handle \<^verbatim>\<open>Tarball(name, 'w')\<close> has just returned, writing entries whose
  names encode to \<open>ns\<close> and whose values are supported, in that order, succeeds, and
  \<^verbatim>\<open>getnames()\<close> then returns exactly \<open>ns\<close>: the names of all members in the order
  they were written. (\<open>write_all_names\<close> above is the same for any open handle in mode
  \<^verbatim>\<open>w\<close> or \<^verbatim>\<open>a\<close>: the new names follow those the archive had.)
\<close>

theorem getnames_creation_order:
  assumes "list_all2 (\<lambda>w n. encode_utf8 (fst w) = Inr n \<and> supported save (fst (snd w))) ws ns"
    and "Tarball_init e fs name ''w'' mtime = (Inr h, fs1)"
  shows "\<exists>h1. write_all save h ws = (Inr (), h1) \<and> getnames h1 = Inr ns"
proof -
  have "\<not> tf_closed (self_tar h) \<and> tf_mode (self_tar h) = CHR ''w'' \<and> tf_members (self_tar h) = []"
    using assms(2)
    by (auto simp add: Tarball_init_def startswith_def TarFile_init_def
        split: option.splits node.splits)
  then show ?thesis
    using write_all_names [OF assms(1), of h] by simp
qed

text \<open>
  The theorem at the names \<^verbatim>\<open>'a'\<close>, \<^verbatim>\<open>u'b'\<close>, \<^verbatim>\<open>'c'\<close>, written in that order with a
  byte string, a pixbuf and an empty byte string: \<^verbatim>\<open>getnames()\<close> returns
  \<^verbatim>\<open>['a', 'b', 'c']\<close>.
\<close>

theorem getnames_creation_order_witness:
  "\<exists>h1. write_all save0 fresh_handle
           [(Str ''a'', PyString (Str ''xx''), 420), (Unicode [98], Pixbuf (), 420),
            (Str ''c'', PyString (Str []), 384)] = (Inr (), h1)
        \<and> getnames h1 = Inr [''a'', ''b'', ''c'']"
proof -
  have i: "Tarball_init env0 fs0 ''out.tar'' ''w'' None =
             (Inr fresh_handle, fs0(''out.tar'' := Some (File (Raw []))))"
    by (simp add: Tarball_init_def startswith_def TarFile_init_def fs0_def env0_def fresh_handle_def)
  have b: "encode_utf8 (Unicode [98]) = Inr ''b''"
    by code_simp
  have l: "list_all2 (\<lambda>w n. encode_utf8 (fst w) = Inr n \<and> supported save0 (fst (snd w)))
            [(Str ''a'', PyString (Str ''xx''), 420), (Unicode [98], Pixbuf (), 420),
             (Str ''c'', PyString (Str []), 384)] [''a'', ''b'', ''c'']"
    using b by (simp add: is_ascii_def supported_def save0_def)
  show ?thesis
    using getnames_creation_order [OF l i] by simp
qed

section \<open>Opening a zip archive\<close>







subsection \<open>Member names with directories\<close>







lemma joined_snoc: "joined arc (p @ [f]) = path_join (joined arc p) f"
  by (simp add: joined_def)

lemma joined_nonempty: "list_all good p \<Longrightarrow> p \<noteq> [] \<Longrightarrow> joined [] p \<noteq> []"
  by (induction p rule: rev_induct) (auto simp add: joined_snoc path_join_def good_def)



lemma joined_Cons: "joined arc (c # p) = joined (path_join arc c) p"
  by (simp add: joined_def)

lemma tlookup_Cons2:
  "cs \<noteq> [] \<Longrightarrow>
   tlookup (c # cs) es = (case map_of es c of Some (TDir sub) \<Rightarrow> tlookup cs sub | _ \<Rightarrow> None)"
  by (cases cs) (simp_all split: option.splits tree.splits)

lemma tlookup_hd: "tlookup p es = Some node \<Longrightarrow> p \<noteq> [] \<and> hd p \<in> fst ` set es"
  by (induction p es rule: tlookup.induct)
    (auto split: option.splits tree.splits dest: map_of_SomeD intro: rev_image_eqI)

lemma tlookup_skip:
  assumes "hd p \<noteq> fst fe"
  shows "tlookup p (fe # es) = tlookup p es"
proof (cases p)
  case Nil
  then show ?thesis by simp
next
  case (Cons c cs)
  then show ?thesis
    using assms by (cases cs) auto
qed




lemma walk_in_tlookup:
  "(m \<in> set (walk t dm arc tr) \<longrightarrow> wf_tree tr \<longrightarrow>
      (info_name (fst m) = arc \<and> describes tr m)
      \<or> (\<exists>es p node. tr = TDir es \<and> list_all good p \<and> tlookup p es = Some node
            \<and> info_name (fst m) = joined arc p \<and> describes node m))"
  "(m \<in> set (walk_entries t arc es) \<longrightarrow> wf_entries es \<longrightarrow>
      (\<exists>p node. list_all good p \<and> tlookup p es = Some node
            \<and> info_name (fst m) = joined arc p \<and> describes node m))"
proof (induction t dm arc tr and t arc es rule: walk_walk_entries.induct)
  case (1 t dmode arc d)
  then show ?case by (simp add: describes_def)
next
  case (2 t dmode arc es)
  then show ?case by (auto simp add: describes_def)
next
  case (3 t arc)
  then show ?case by simp
next
  case (4 t arc fe es)
  show ?case
  proof (intro impI)
    assume m: "m \<in> set (walk_entries t arc (fe # es))" and wf: "wf_entries (fe # es)"
    from m consider (here) "m \<in> set (walk t 493 (path_join arc (fst fe)) (snd fe))"
      | (there) "m \<in> set (walk_entries t arc es)"
      by auto
    then show "\<exists>p node. list_all good p \<and> tlookup p (fe # es) = Some node
            \<and> info_name (fst m) = joined arc p \<and> describes node m"
    proof cases
      case here
      with "4.IH"(1) wf consider
        (top) "info_name (fst m) = path_join arc (fst fe)" "describes (snd fe) m"
        | (deep) sub p node where "snd fe = TDir sub" "list_all good p" "tlookup p sub = Some node"
            "info_name (fst m) = joined (path_join arc (fst fe)) p" "describes node m"
        by auto
      then show ?thesis
      proof cases
        case top
        then show ?thesis
          using wf by (intro exI [of _ "[fst fe]"] exI [of _ "snd fe"]) (simp add: joined_def)
      next
        case deep
        have "p \<noteq> []"
          using deep(3) by auto
        then have "tlookup (fst fe # p) (fe # es) = Some node"
          using deep(1,3) by (simp add: tlookup_Cons2)
        then show ?thesis
          using deep wf
          by (intro exI [of _ "fst fe # p"] exI [of _ node]) (simp add: joined_Cons)
      qed
    next
      case there
      with "4.IH"(2) wf obtain p node where p: "list_all good p" "tlookup p es = Some node"
        "info_name (fst m) = joined arc p" "describes node m"
        by auto
      have "hd p \<in> fst ` set es"
        using tlookup_hd [OF p(2)] by simp
      moreover have "fst fe \<notin> fst ` set es"
        using wf by simp
      ultimately have "hd p \<noteq> fst fe"
        by metis
      then show ?thesis
        using p by (intro exI [of _ p] exI [of _ node]) (simp add: tlookup_skip)
    qed
  qed
qed





lemma tlookup_update_one: "tlookup [c] (AList.update c v es) = Some v"
  by (simp add: AList.update_conv')








lemma map_of_inj_keys:
  "\<forall>z \<in> set xs. f (fst z) = f b \<longrightarrow> fst z = b \<Longrightarrow>
   map_of (map (\<lambda>z. (f (fst z), snd z)) xs) (f b) = map_of xs b"
  by (induction xs) auto


lemma walk_names_nonempty:
  assumes "m \<in> set (walk_entries t [] es)" and "wf_entries es"
  shows "info_name (fst m) \<noteq> []"
proof -
  obtain p node where p: "list_all good p" "tlookup p es = Some node"
    "info_name (fst m) = joined [] p"
    using walk_in_tlookup(2) [of m t "[]" es] assms by blast
  have "p \<noteq> []"
    using p(2) by auto
  then show ?thesis
    using joined_nonempty [OF p(1)] p(3) by simp
qed

subsection \<open>Extraction into the scratch directory\<close>



lemma update_same: "map_of es c = Some v \<Longrightarrow> AList.update c v es = es"
  by (induction es) auto









lemma tlookup_Nil: "tlookup [] es = None"
  by simp




subsection \<open>The members of the converted archive\<close>















subsection \<open>Archives with normal names and no clashes\<close>













section \<open>The default timestamp\<close>

lemma init_mtime_zero:
  "Tarball_init e fs name mode (Some 0) = Tarball_init e fs name mode None"
  unfolding Tarball_init_def by (simp split: prod.split sum.split)

lemma init_mtime_none:
  "Tarball_init e fs name mode None = (Inr h, fs1) \<Longrightarrow> self_mtime h = now e"
  by (auto simp add: Tarball_init_def split: prod.splits sum.splits)

lemma write_last_mtime:
  assumes "Tarball_write save h arcname data m = (Inr (), h1)"
  shows "tf_members (self_tar h1) \<noteq> []
       \<and> info_mtime (fst (last (tf_members (self_tar h1)))) = self_mtime h"
proof -
  obtain n where n: "encode_utf8 arcname = Inr n"
    using assms by (auto simp add: Tarball_write_def split: sum.splits)
  consider (s) s where "data = PyString (Str s)" | (p) p where "data = Pixbuf p"
    using assms n by (cases data) (auto simp add: Tarball_write_def split: pystr.splits)
  then show ?thesis
  proof cases
    case s
    then show ?thesis
      using assms n addfile_last
      by (fastforce simp add: Tarball_write_def write_str_def split: prod.splits)
  next
    case p
    then show ?thesis
      using assms n addfile_last
      by (fastforce simp add: Tarball_write_def write_pixbuf_def split: prod.splits sum.splits)
  qed
qed

text \<open>
  Claim C10. \<^verbatim>\<open>if mtime:\<close> is false for 0, so \<^verbatim>\<open>Tarball(name, mode, 0)\<close> does what
  \<^verbatim>\<open>Tarball(name, mode)\<close> does: when it returns a handle, the handle's \<^verbatim>\<open>mtime\<close> is the
  reading of the clock, and every entry a later \<^verbatim>\<open>write\<close> adds carries that reading as
  its \<^verbatim>\<open>mtime\<close>.
\<close>

theorem mtime_zero_ignored:
  "Tarball_init e fs name mode (Some 0) = Tarball_init e fs name mode None
   \<and> (\<forall>h fs1. Tarball_init e fs name mode (Some 0) = (Inr h, fs1) \<longrightarrow>
        self_mtime h = now e
        \<and> (\<forall>arcname data m h1. Tarball_write save h arcname data m = (Inr (), h1) \<longrightarrow>
              tf_members (self_tar h1) \<noteq> []
              \<and> info_mtime (fst (last (tf_members (self_tar h1)))) = now e))"
proof (intro conjI allI impI)
  show "Tarball_init e fs name mode (Some 0) = Tarball_init e fs name mode None"
    by (rule init_mtime_zero)
next
  fix h fs1
  assume "Tarball_init e fs name mode (Some 0) = (Inr h, fs1)"
  then show "self_mtime h = now e"
    by (simp add: init_mtime_zero init_mtime_none)
next
  fix h fs1 arcname data m h1
  assume "Tarball_init e fs name mode (Some 0) = (Inr h, fs1)"
    and "Tarball_write save h arcname data m = (Inr (), h1)"
  then show "tf_members (self_tar h1) \<noteq> []"
    using write_last_mtime by blast
next
  fix h fs1 arcname data m h1
  assume i: "Tarball_init e fs name mode (Some 0) = (Inr h, fs1)"
    and w: "Tarball_write save h arcname data m = (Inr (), h1)"
  have "self_mtime h = now e"
    using i by (simp add: init_mtime_zero init_mtime_none)
  then show "info_mtime (fst (last (tf_members (self_tar h1)))) = now e"
    using write_last_mtime [OF w] by simp
qed

text \<open>
  The theorem at \<^verbatim>\<open>Tarball('out.tar', 'w', 0)\<close> with the clock at 1700000000, followed by
  \<^verbatim>\<open>write('a', 'xx')\<close>.
\<close>

theorem mtime_zero_ignored_witness:
  "Tarball_init env0 fs0 ''out.tar'' ''w'' (Some 0) =
     (Inr fresh_handle, fs0(''out.tar'' := Some (File (Raw []))))
   \<and> self_mtime fresh_handle = 1700000000
   \<and> info_mtime (fst (last (tf_members (self_tar
        (snd (Tarball_write save0 fresh_handle (Str ''a'') (PyString (Str ''xx'')) 420))))))
      = 1700000000"
proof -
  have i: "Tarball_init env0 fs0 ''out.tar'' ''w'' (Some 0) =
             (Inr fresh_handle, fs0(''out.tar'' := Some (File (Raw []))))"
    by (simp add: Tarball_init_def startswith_def TarFile_init_def fs0_def env0_def fresh_handle_def)
  have w: "Tarball_write save0 fresh_handle (Str ''a'') (PyString (Str ''xx'')) 420 =
             (Inr (), snd (Tarball_write save0 fresh_handle (Str ''a'') (PyString (Str ''xx'')) 420))"
    by (simp add: Tarball_write_def is_ascii_def write_str_def addfile_def check_def
        fresh_handle_def)
  have n: "now env0 = 1700000000"
    by (simp add: env0_def)
  show ?thesis
    using mtime_zero_ignored [of env0 fs0 "''out.tar''" "''w''" save0] i w n by metis
qed

end
